theory Spec2Isabelle
  imports Main "HOL-Library.AList"
begin

section \<open>JSON values and the JavaScript operations applied to them\<close>

text \<open>
  Every message of the protocol is the result of \<^verbatim>\<open>JSON.parse\<close>. Numbers are the
  integral ones (ids, ports, error codes); fractions and exponents are not modelled. An
  object is its list of members in insertion order, with distinct keys, as the parser
  builds it. A value that may be \<^verbatim>\<open>undefined\<close> is a \<open>json option\<close>.
\<close>

datatype json =
    JNull
  | JBool bool
  | JNum int
  | JStr string
  | JArr "json list"
  | JObj "(string \<times> json) list"

text \<open>Property access \<^verbatim>\<open>v.k\<close> on a value that is neither null nor undefined, for the
  keys the code reads (none of them is a member of a prototype).\<close>

fun js_get :: "json \<Rightarrow> string \<Rightarrow> json option" where
  "js_get (JObj kvs) k = map_of kvs k"
| "js_get _ k = None"

text \<open>Truthiness, as \<^verbatim>\<open>if (v)\<close>, \<^verbatim>\<open>!v\<close> and \<^verbatim>\<open>v || w\<close> test it.\<close>

fun js_truthy :: "json option \<Rightarrow> bool" where
  "js_truthy None = False"
| "js_truthy (Some JNull) = False"
| "js_truthy (Some (JBool b)) = b"
| "js_truthy (Some (JNum n)) = (n \<noteq> 0)"
| "js_truthy (Some (JStr s)) = (s \<noteq> [])"
| "js_truthy (Some (JArr xs)) = True"
| "js_truthy (Some (JObj kvs)) = True"

text \<open>\<^verbatim>\<open>req.params || {}\<close>\<close>

definition or_empty_object :: "json option \<Rightarrow> json" where
  "or_empty_object p = (if js_truthy p then the p else JObj [])"

text \<open>Decimal rendering of numbers (\<^verbatim>\<open>Number.prototype.toString\<close>).\<close>

definition digit_char :: "nat \<Rightarrow> char" where
  "digit_char d = ''0123456789'' ! d"

fun string_of_nat :: "nat \<Rightarrow> string" where
  "string_of_nat n =
     (if n < 10 then [digit_char n] else string_of_nat (n div 10) @ [digit_char (n mod 10)])"

declare string_of_nat.simps [simp del]

definition string_of_int :: "int \<Rightarrow> string" where
  "string_of_int i = (if i < 0 then CHR ''-'' # string_of_nat (nat (- i)) else string_of_nat (nat i))"

text \<open>
  Conversion to a string, as a template literal \<^verbatim>\<open>`${v}`\<close> performs it. \<open>None\<close> is the
  \<^verbatim>\<open>TypeError\<close> raised for an object whose own member \<^verbatim>\<open>toString\<close> hides the inherited
  method (no member of a parsed object is callable). An array joins its elements with
  commas, a null element giving the empty string.
\<close>

fun js_join :: "string option list \<Rightarrow> string option" where
  "js_join [] = Some []"
| "js_join [x] = x"
| "js_join (x # y # ys) =
     (case x of None \<Rightarrow> None
      | Some s \<Rightarrow> (case js_join (y # ys) of None \<Rightarrow> None | Some t \<Rightarrow> Some (s @ '','' @ t)))"

fun js_to_string :: "json \<Rightarrow> string option" where
  "js_to_string JNull = Some ''null''"
| "js_to_string (JBool b) = Some (if b then ''true'' else ''false'')"
| "js_to_string (JNum n) = Some (string_of_int n)"
| "js_to_string (JStr s) = Some s"
| "js_to_string (JArr xs) =
     js_join (map (\<lambda>x. if x = JNull then Some [] else js_to_string x) xs)"
| "js_to_string (JObj kvs) =
     (if ''toString'' \<in> fst ` set kvs then None else Some ''[object Object]'')"

definition js_template :: "json option \<Rightarrow> string option" where
  "js_template v = (case v of None \<Rightarrow> Some ''undefined'' | Some x \<Rightarrow> js_to_string x)"

text \<open>\<^verbatim>\<open>s.includes(sub)\<close>\<close>

fun starts_with :: "string \<Rightarrow> string \<Rightarrow> bool" where
  "starts_with s [] = True"
| "starts_with [] (c # cs) = False"
| "starts_with (x # xs) (c # cs) = (x = c \<and> starts_with xs cs)"

fun str_includes :: "string \<Rightarrow> string \<Rightarrow> bool" where
  "str_includes [] sub = (sub = [])"
| "str_includes (x # xs) sub = (starts_with (x # xs) sub \<or> str_includes xs sub)"

text \<open>A thrown value: its \<^verbatim>\<open>name\<close>, \<^verbatim>\<open>message\<close> and, for a system error, \<^verbatim>\<open>code\<close>.\<close>

record js_error =
  err_name :: string
  err_message :: string
  err_code :: "string option"

definition Error :: "string \<Rightarrow> js_error" where
  "Error msg = \<lparr>err_name = ''Error'', err_message = msg, err_code = None\<rparr>"

definition TypeError :: "string \<Rightarrow> js_error" where
  "TypeError msg = \<lparr>err_name = ''TypeError'', err_message = msg, err_code = None\<rparr>"

section \<open>Protocol messages (mcp/types.ts)\<close>

text \<open>A request as the handlers receive it: the members of the parsed envelope, each
  absent (\<open>None\<close>) or present.\<close>

record McpRequest =
  req_id :: "json option"
  req_method :: "json option"
  req_params :: "json option"

text \<open>The argument of a reply callback: \<^verbatim>\<open>Omit<McpResponse, "jsonrpc" | "id">\<close>.\<close>

record reply_msg =
  result :: "json option"
  error :: "(int \<times> string) option"

definition reply_result :: "json \<Rightarrow> reply_msg" where
  "reply_result v = \<lparr>result = Some v, error = None\<rparr>"

definition reply_error :: "int \<Rightarrow> string \<Rightarrow> reply_msg" where
  "reply_error c m = \<lparr>result = None, error = Some (c, m)\<rparr>"

record McpResponse =
  jsonrpc :: string
  resp_id :: "json option"
  resp_result :: "json option"
  resp_error :: "(int \<times> string) option"

text \<open>\<^verbatim>\<open>{ jsonrpc: "2.0", id: req.id, ...msg }\<close>\<close>

definition make_response :: "json option \<Rightarrow> reply_msg \<Rightarrow> McpResponse" where
  "make_response i msg =
     \<lparr>jsonrpc = ''2.0'', resp_id = i, resp_result = result msg, resp_error = error msg\<rparr>"

text \<open>
  What an asynchronous handler does: the messages it passes to the reply callback, in
  order; whether its promise settles at all; and the value it threw, if it rejected. No
  handler is given a deadline, so one that awaits a promise which never settles stays
  pending for ever. The reply callback itself returns normally: a send on a socket that
  is no longer open, or a write to a destroyed response, is dropped without an
  exception.
\<close>

record outcome =
  emitted :: "reply_msg list"
  thrown :: "js_error option"
  settles :: bool

definition replied :: "reply_msg list \<Rightarrow> outcome" where
  "replied ms = \<lparr>emitted = ms, thrown = None, settles = True\<rparr>"

definition threw :: "js_error \<Rightarrow> outcome" where
  "threw e = \<lparr>emitted = [], thrown = Some e, settles = True\<rparr>"

definition pending :: outcome where
  "pending = \<lparr>emitted = [], thrown = None, settles = False\<rparr>"

section \<open>The tool registry (shared/tool-registry.ts)\<close>

text \<open>The category of a definition is its string: the tables of the tools hold
  \<^verbatim>\<open>"general"\<close>, \<^verbatim>\<open>"file"\<close>, \<^verbatim>\<open>"workspace"\<close>, \<^verbatim>\<open>"ide-specific"\<close> and \<^verbatim>\<open>"canvas"\<close>.\<close>

record Tool =
  name :: string
  description :: string
  inputSchema :: json

record ToolDefinition = Tool +
  category :: string

record ToolImplementation =
  impl_name :: string
  handler :: "json option \<Rightarrow> outcome"

record RegisteredTool =
  tool_definition :: ToolDefinition
  tool_implementation :: ToolImplementation

text \<open>The \<^verbatim>\<open>Map\<close> of the registry: its entries in insertion order. \<^verbatim>\<open>Map.set\<close> on a
  present key replaces the value where it stands, on an absent key appends: that is
  \<^const>\<open>AList.update\<close>.\<close>

record ToolRegistry =
  tools :: "(string \<times> RegisteredTool) list"

definition new_ToolRegistry :: ToolRegistry where
  "new_ToolRegistry = \<lparr>tools = []\<rparr>"

definition mismatch_message :: "string \<Rightarrow> string \<Rightarrow> string" where
  \<open>mismatch_message d i =
     ''Tool definition name "'' @ d @ ''" doesn'' @ [CHR 0x27] @ ''t match implementation name "'' @ i @ ''"''\<close>

text \<open>\<open>register\<close> returns what it threw (\<open>None\<close> when it returned) and the registry it leaves.\<close>

definition register ::
  "ToolDefinition \<Rightarrow> ToolImplementation \<Rightarrow> ToolRegistry \<Rightarrow> js_error option \<times> ToolRegistry" where
  "register d i r =
     (if name d \<noteq> impl_name i
      then (Some (Error (mismatch_message (name d) (impl_name i))), r)
      else (None,
            r\<lparr>tools := AList.update (name d) \<lparr>tool_definition = d, tool_implementation = i\<rparr> (tools r)\<rparr>))"

text \<open>\<^verbatim>\<open>this.tools.get(name)\<close>: only a string is ever a key.\<close>

definition tools_get :: "ToolRegistry \<Rightarrow> json option \<Rightarrow> RegisteredTool option" where
  "tools_get r k = (case k of Some (JStr s) \<Rightarrow> map_of (tools r) s | _ \<Rightarrow> None)"

definition not_registered_text :: "string \<Rightarrow> string" where
  "not_registered_text s = ''Tool '' @ [CHR 0x27] @ s @ [CHR 0x27] @ '' is not registered''"

definition text_content :: "string \<Rightarrow> json" where
  "text_content t = JObj [(''content'', JArr [JObj [(''type'', JStr ''text''), (''text'', JStr t)]])]"

definition handleToolCall :: "ToolRegistry \<Rightarrow> McpRequest \<Rightarrow> outcome" where
  "handleToolCall r req =
     (let p = or_empty_object (req_params req);
          nm = js_get p ''name'';
          args = js_get p ''arguments''
      in case tools_get r nm of
           None \<Rightarrow>
             (case js_template nm of
                None \<Rightarrow> threw (TypeError ''Cannot convert object to primitive value'')
              | Some s \<Rightarrow> replied [reply_result (text_content (not_registered_text s))])
         | Some tool \<Rightarrow>
             (let out = handler (tool_implementation tool) args
              in if \<not> settles out then out\<lparr>thrown := None\<rparr>
                 else case thrown out of
                        None \<Rightarrow> out
                      | Some e \<Rightarrow>
                          replied (emitted out @
                            [reply_error (- 32603)
                               (''failed to call tool '' @ the (js_template nm) @ '': '' @ err_message e)])))"

text \<open>\<^verbatim>\<open>getToolDefinitions(category?)\<close>: the definitions in insertion order, the
  category member removed.\<close>

definition strip_category :: "ToolDefinition \<Rightarrow> Tool" where
  "strip_category d = \<lparr>name = name d, description = description d, inputSchema = inputSchema d\<rparr>"

definition getToolDefinitions :: "ToolRegistry \<Rightarrow> string option \<Rightarrow> Tool list" where
  "getToolDefinitions r cat =
     map (\<lambda>(k, t). strip_category (tool_definition t))
       (filter (\<lambda>(k, t). (case cat of None \<Rightarrow> True
                            | Some c \<Rightarrow> c = [] \<or> category (tool_definition t) = c))
          (tools r))"

definition getRegisteredToolNames :: "ToolRegistry \<Rightarrow> string list" where
  "getRegisteredToolNames r = map fst (tools r)"

definition hasImplementation :: "ToolRegistry \<Rightarrow> string \<Rightarrow> bool" where
  "hasImplementation r k = (map_of (tools r) k \<noteq> None)"

text \<open>The registry after a run of \<open>register\<close> calls on a fresh one, a call that throws
  leaving it as it was.\<close>

fun register_all :: "(ToolDefinition \<times> ToolImplementation) list \<Rightarrow> ToolRegistry \<Rightarrow> ToolRegistry" where
  "register_all [] r = r"
| "register_all ((d, i) # cs) r = register_all cs (snd (register d i r))"

section \<open>The process environment and the file system\<close>

text \<open>
  What the code reads of its process: the environment variables, the home directory
  (\<^verbatim>\<open>os.homedir()\<close>), the platform and the process id; and of the file system: the files
  with their contents (the JSON value whose text the file holds) and the directories.
  Permission and media failures of the file system are not modelled.
\<close>

record world =
  env :: "string \<Rightarrow> string option"
  homedir :: string
  win32 :: bool
  pid :: nat
  files :: "string \<Rightarrow> json option"
  dirs :: "string set"

text \<open>\<^verbatim>\<open>process.env.X\<close> as a condition, and \<^verbatim>\<open>process.env.X || d\<close>.\<close>

definition env_set :: "world \<Rightarrow> string \<Rightarrow> bool" where
  "env_set w k = (case env w k of None \<Rightarrow> False | Some v \<Rightarrow> v \<noteq> [])"

definition env_or :: "world \<Rightarrow> string \<Rightarrow> string \<Rightarrow> string" where
  "env_or w k d = (if env_set w k then the (env w k) else d)"

text \<open>
  \<^verbatim>\<open>path.join\<close>: the non-empty segments joined by the separator and normalised (empty and
  \<^verbatim>\<open>.\<close> components dropped, \<^verbatim>\<open>..\<close> resolved). On Windows the separator is the backslash and
  both slashes separate components; drive-relative and UNC forms are not modelled.
\<close>

definition is_separator :: "bool \<Rightarrow> char \<Rightarrow> bool" where
  "is_separator win c = (c = CHR ''/'' \<or> (win \<and> c = CHR 0x5C))"

fun split_path :: "bool \<Rightarrow> string \<Rightarrow> string \<Rightarrow> string list" where
  "split_path win acc [] = [rev acc]"
| "split_path win acc (c # cs) =
     (if is_separator win c then rev acc # split_path win [] cs
      else split_path win (c # acc) cs)"

fun resolve_components :: "bool \<Rightarrow> string list \<Rightarrow> string list \<Rightarrow> string list" where
  "resolve_components absolute stack [] = rev stack"
| "resolve_components absolute stack (c # cs) =
     (if c = [] \<or> c = ''.'' then resolve_components absolute stack cs
      else if c = ''..'' then
        (case stack of
           [] \<Rightarrow> resolve_components absolute (if absolute then [] else [c]) cs
         | t # ts \<Rightarrow> resolve_components absolute (if t = ''..'' then c # stack else ts) cs)
      else resolve_components absolute (c # stack) cs)"

fun intercalate :: "string \<Rightarrow> string list \<Rightarrow> string" where
  "intercalate sep [] = []"
| "intercalate sep [x] = x"
| "intercalate sep (x # y # ys) = x @ sep @ intercalate sep (y # ys)"

definition path_normalize :: "bool \<Rightarrow> string \<Rightarrow> string" where
  "path_normalize win p =
     (let sep = (if win then [CHR 0x5C] else ''/'');
          absolute = (p \<noteq> [] \<and> is_separator win (hd p));
          trailing = (p \<noteq> [] \<and> is_separator win (last p));
          body = intercalate sep (resolve_components absolute [] (split_path win [] p))
      in if body = [] then (if absolute then sep else if trailing then ''.'' @ sep else ''.'')
         else (if absolute then sep else []) @ body @ (if trailing then sep else []))"

definition path_join :: "bool \<Rightarrow> string list \<Rightarrow> string" where
  "path_join win segs =
     (let joined = intercalate (if win then [CHR 0x5C] else ''/'') (filter (\<lambda>s. s \<noteq> []) segs)
      in if joined = [] then ''.'' else path_normalize win joined)"

text \<open>\<^verbatim>\<open>fs.existsSync\<close>, and \<^verbatim>\<open>fs.mkdirSync(p, { recursive: true })\<close>, which creates the
  directory and every missing ancestor.\<close>

definition existsSync :: "world \<Rightarrow> string \<Rightarrow> bool" where
  "existsSync w p = (files w p \<noteq> None \<or> p \<in> dirs w)"

fun ancestors :: "bool \<Rightarrow> string \<Rightarrow> string \<Rightarrow> string list" where
  "ancestors win pre [] = [rev pre]"
| "ancestors win pre (c # cs) =
     (if is_separator win c \<and> pre \<noteq> [] then rev pre # ancestors win (c # pre) cs
      else ancestors win (c # pre) cs)"

definition mkdirSync_recursive :: "world \<Rightarrow> string \<Rightarrow> world" where
  "mkdirSync_recursive w p = w\<lparr>dirs := dirs w \<union> set (ancestors (win32 w) [] p)\<rparr>"

definition writeFileSync :: "world \<Rightarrow> string \<Rightarrow> json \<Rightarrow> world" where
  "writeFileSync w p v = w\<lparr>files := (files w)(p \<mapsto> v)\<rparr>"

definition unlinkSync :: "world \<Rightarrow> string \<Rightarrow> world" where
  "unlinkSync w p = w\<lparr>files := (files w)(p := None)\<rparr>"

section \<open>The configuration directory (claude-config.ts)\<close>

text \<open>\<^verbatim>\<open>fs.existsSync\<close> never throws, so the \<^verbatim>\<open>catch\<close> branches of the source, which
  return the modern directory as well, are not reached.\<close>

definition getClaudeConfigDir :: "world \<Rightarrow> string" where
  "getClaudeConfigDir w =
     (if env_set w ''CLAUDE_CONFIG_DIR'' then the (env w ''CLAUDE_CONFIG_DIR'')
      else
        let homeDir = homedir w in
        if win32 w then
          (let appDataDir = env_or w ''APPDATA'' (path_join True [homeDir, ''AppData'', ''Roaming'']);
               modernConfigDir = path_join True [appDataDir, ''claude''];
               legacyConfigDir = path_join True [homeDir, ''.claude'']
           in if existsSync w modernConfigDir then modernConfigDir
              else if existsSync w legacyConfigDir then legacyConfigDir
              else modernConfigDir)
        else
          (let xdgConfigHome = env_or w ''XDG_CONFIG_HOME'' (path_join False [homeDir, ''.config'']);
               modernConfigDir = path_join False [xdgConfigHome, ''claude''];
               legacyConfigDir = path_join False [homeDir, ''.claude'']
           in if existsSync w modernConfigDir then modernConfigDir
              else if existsSync w legacyConfigDir then legacyConfigDir
              else modernConfigDir))"

definition getClaudeIdeDir :: "world \<Rightarrow> string" where
  "getClaudeIdeDir w = path_join (win32 w) [getClaudeConfigDir w, ''ide'']"

section \<open>The socket transport (mcp/server.ts)\<close>

type_synonym sock = nat

record McpNotification =
  note_method :: string
  note_params :: "json option"

datatype wire_message = ResponseMessage McpResponse | NotificationMessage McpNotification

text \<open>What a callback does to sockets: it sends a message on one, or closes one.\<close>

datatype ws_effect = Send sock wire_message | CloseSocket sock

text \<open>The options handed to \<^verbatim>\<open>new WebSocketServer\<close>, and the server made from them, with
  the port read from \<^verbatim>\<open>address()\<close>.\<close>

record WebSocketServerOptions =
  opt_port :: nat
  opt_host :: "string option"

text \<open>
  Where the library listens: with a host, on the addresses of that host; with none, on
  the unspecified address, which is every interface of the machine. A listener is
  restricted to loopback when its host is a loopback name or address.
\<close>

definition loopback_only :: "WebSocketServerOptions \<Rightarrow> bool" where
  "loopback_only opts =
     (case opt_host opts of
        None \<Rightarrow> False
      | Some h \<Rightarrow> h = ''localhost'' \<or> h = ''::1'' \<or> starts_with h ''127.'')"

record WebSocketServer =
  options :: WebSocketServerOptions
  address_port :: nat
  closed :: bool

record McpServerConfig =
  onMessage :: "sock \<Rightarrow> json \<Rightarrow> ws_effect list"
  onConnection :: "(sock \<Rightarrow> ws_effect list) option"
  onDisconnection :: "(sock \<Rightarrow> ws_effect list) option"

record McpServer =
  wss :: "WebSocketServer option"
  lockFilePath :: string
  connectedClients :: "sock list"
  config :: McpServerConfig

definition new_McpServer :: "McpServerConfig \<Rightarrow> McpServer" where
  "new_McpServer c = \<lparr>wss = None, lockFilePath = [], connectedClients = [], config = c\<rparr>"

text \<open>\<^verbatim>\<open>Set.add\<close> and \<^verbatim>\<open>Set.delete\<close> on the insertion-ordered set of clients.\<close>

definition set_add :: "'a \<Rightarrow> 'a list \<Rightarrow> 'a list" where
  "set_add x xs = (if x \<in> set xs then xs else xs @ [x])"

definition set_delete :: "'a \<Rightarrow> 'a list \<Rightarrow> 'a list" where
  "set_delete x xs = filter (\<lambda>y. y \<noteq> x) xs"

definition lock_record :: "nat \<Rightarrow> json list \<Rightarrow> json" where
  "lock_record p folders =
     JObj [(''pid'', JNum (int p)), (''workspaceFolders'', JArr folders),
           (''ideName'', JStr ''Obsidian''), (''transport'', JStr ''ws'')]"

definition createLockFile :: "nat \<Rightarrow> McpServer \<Rightarrow> world \<Rightarrow> McpServer \<times> world" where
  "createLockFile p s w =
     (let ideDir = path_join (win32 w)
                     [env_or w ''HOME'' (env_or w ''USERPROFILE'' ''.''), ''.claude'', ''ide''];
          w1 = mkdirSync_recursive w ideDir;
          lockPath = path_join (win32 w) [ideDir, string_of_nat p @ ''.lock'']
      in (s\<lparr>lockFilePath := lockPath\<rparr>, writeFileSync w1 lockPath (lock_record (pid w) [])))"

text \<open>
  \<open>start\<close>. The library is a parameter: \<open>listen opts\<close> is what creating a
  \<^verbatim>\<open>WebSocketServer\<close> with the options \<open>opts\<close> gives, the error it throws or the port
  the system assigned. The result is the port the promise resolves to, or the error it
  rejects with.
\<close>

definition McpServer_start ::
  "(WebSocketServerOptions \<Rightarrow> js_error + nat) \<Rightarrow> McpServer \<Rightarrow> world
     \<Rightarrow> (js_error + nat) \<times> McpServer \<times> world" where
  "McpServer_start listen s w =
     (let opts = \<lparr>opt_port = 0, opt_host = None\<rparr>
      in case listen opts of
           Inl e \<Rightarrow> (Inl e, s, w)
         | Inr p \<Rightarrow>
             (let s1 = s\<lparr>wss := Some \<lparr>options = opts, address_port = p, closed = False\<rparr>\<rparr>;
                  (s2, w2) = createLockFile p s1 w;
                  w3 = w2\<lparr>env := (env w2)(''CLAUDE_CODE_SSE_PORT'' \<mapsto> string_of_nat p,
                                           ''ENABLE_IDE_INTEGRATION'' \<mapsto> ''true'')\<rparr>
              in (Inr p, s2, w3)))"

definition McpServer_stop :: "McpServer \<Rightarrow> world \<Rightarrow> McpServer \<times> world" where
  "McpServer_stop s w =
     (s\<lparr>wss := map_option (\<lambda>x. x\<lparr>closed := True\<rparr>) (wss s)\<rparr>,
      if lockFilePath s \<noteq> [] \<and> existsSync w (lockFilePath s) then unlinkSync w (lockFilePath s) else w)"

text \<open>The events of an accepted connection.\<close>

definition on_connection :: "McpServer \<Rightarrow> sock \<Rightarrow> ws_effect list \<times> McpServer" where
  "on_connection s k =
     ((case onConnection (config s) of None \<Rightarrow> [] | Some f \<Rightarrow> f k),
      s\<lparr>connectedClients := set_add k (connectedClients s)\<rparr>)"

definition on_close :: "McpServer \<Rightarrow> sock \<Rightarrow> ws_effect list \<times> McpServer" where
  "on_close s k =
     ((case onDisconnection (config s) of None \<Rightarrow> [] | Some f \<Rightarrow> f k),
      s\<lparr>connectedClients := set_delete k (connectedClients s)\<rparr>)"

definition on_error :: "McpServer \<Rightarrow> sock \<Rightarrow> ws_effect list \<times> McpServer" where
  "on_error s k = ([], s\<lparr>connectedClients := set_delete k (connectedClients s)\<rparr>)"

text \<open>\<open>handleMessage\<close>, with \<^verbatim>\<open>JSON.parse\<close> as the parameter \<open>parse\<close> (\<open>None\<close> when it
  throws).\<close>

definition handleMessage ::
  "(string \<Rightarrow> json option) \<Rightarrow> McpServer \<Rightarrow> sock \<Rightarrow> string \<Rightarrow> ws_effect list \<times> McpServer" where
  "handleMessage parse s k raw =
     (case parse raw of
        None \<Rightarrow> ([], s)
      | Some req \<Rightarrow> (onMessage (config s) k req, s))"

text \<open>\<open>broadcast\<close>; \<open>is_open\<close> tells which sockets are in the state \<^verbatim>\<open>OPEN\<close>.\<close>

definition McpServer_broadcast :: "(sock \<Rightarrow> bool) \<Rightarrow> McpServer \<Rightarrow> McpNotification \<Rightarrow> ws_effect list" where
  "McpServer_broadcast is_open s n =
     map (\<lambda>k. Send k (NotificationMessage n)) (filter is_open (connectedClients s))"

text \<open>\<open>updateWorkspaceFolders\<close> reads the lock file back, sets one member and writes it
  again; it returns what it threw, if anything, and the file system it leaves.\<close>

definition updateWorkspaceFolders :: "McpServer \<Rightarrow> world \<Rightarrow> string \<Rightarrow> js_error option \<times> world" where
  "updateWorkspaceFolders s w basePath =
     (if lockFilePath s \<noteq> [] \<and> existsSync w (lockFilePath s) then
        (case files w (lockFilePath s) of
           None \<Rightarrow>
             (Some \<lparr>err_name = ''Error'',
                    err_message = ''EISDIR: illegal operation on a directory, read'',
                    err_code = Some ''EISDIR''\<rparr>, w)
         | Some (JObj kvs) \<Rightarrow>
             (None, writeFileSync w (lockFilePath s)
                      (JObj (AList.update ''workspaceFolders'' (JArr [JStr basePath]) kvs)))
         | Some (JArr xs) \<Rightarrow> (None, writeFileSync w (lockFilePath s) (JArr xs))
         | Some v \<Rightarrow> (Some (TypeError ''Cannot create property workspaceFolders''), w))
      else (None, w))"

section \<open>The streaming HTTP transport (mcp/http-server.ts)\<close>

text \<open>
  A \<^verbatim>\<open>ServerResponse\<close> is named by a number; \<open>destroyed\<close>, a parameter of the functions
  that write, tells which responses have lost their socket. A write to a stream is
  recorded as the pair of the response and the event.
\<close>

record Session =
  session_id :: string
  createdAt :: nat
  streams :: "nat list"

record SSEStream =
  response :: nat
  sessionId :: string
  lastEventId :: "string option"

datatype sse_data =
    TextData string
  | ResponseData McpResponse
  | NotificationData McpNotification

record sse_event =
  event_id :: "string option"
  event_name :: string
  event_data :: sse_data

text \<open>The handler of the configuration: \<open>http_onMessage c m\<close> is the list of messages
  the handler passes to the reply callback it is given, for the envelope \<open>m\<close>.\<close>

record McpHttpServerConfig =
  http_onMessage :: "json \<Rightarrow> reply_msg list"

record McpHttpServer =
  server_listening :: bool
  http_port :: nat
  http_config :: McpHttpServerConfig
  sessions :: "(string \<times> Session) list"
  activeStreams :: "SSEStream list"
  eventIdCounter :: nat

definition new_McpHttpServer :: "McpHttpServerConfig \<Rightarrow> McpHttpServer" where
  "new_McpHttpServer c =
     \<lparr>server_listening = False, http_port = 0, http_config = c, sessions = [],
      activeStreams = [], eventIdCounter = 0\<rparr>"

text \<open>\<open>start\<close>; \<open>listen port host\<close> is what the system answers to
  \<^verbatim>\<open>server.listen(port, host)\<close>: the error event, or the port of the bound address.\<close>

definition McpHttpServer_start ::
  "(nat \<Rightarrow> string \<Rightarrow> js_error + nat) \<Rightarrow> McpHttpServer \<Rightarrow> nat \<Rightarrow> (js_error + nat) \<times> McpHttpServer" where
  "McpHttpServer_start listen s p =
     (case listen p ''127.0.0.1'' of
        Inl e \<Rightarrow> (Inl e, s)
      | Inr bound \<Rightarrow>
          (let q = (if bound \<noteq> 0 then bound else p)
           in (Inr q, s\<lparr>server_listening := True, http_port := q\<rparr>)))"

definition sendSSEMessage ::
  "(nat \<Rightarrow> bool) \<Rightarrow> nat \<Rightarrow> string \<Rightarrow> sse_data \<Rightarrow> string option \<Rightarrow> (nat \<times> sse_event) list" where
  "sendSSEMessage destroyed res ev d i =
     (if destroyed res then []
      else [(res, \<lparr>event_id = (case i of None \<Rightarrow> None | Some t \<Rightarrow> if t = [] then None else Some t),
                   event_name = ev, event_data = d\<rparr>)])"

definition McpHttpServer_broadcast ::
  "(nat \<Rightarrow> bool) \<Rightarrow> McpHttpServer \<Rightarrow> McpNotification \<Rightarrow> (nat \<times> sse_event) list \<times> McpHttpServer" where
  "McpHttpServer_broadcast destroyed s n =
     (let eventId = Suc (eventIdCounter s)
      in (concat (map (\<lambda>st. sendSSEMessage destroyed (response st) ''message''
                              (NotificationData n) (Some (string_of_nat eventId)))
                    (activeStreams s)),
          s\<lparr>eventIdCounter := eventId\<rparr>))"

text \<open>
  \<open>handleSSEConnection\<close>: the \<^verbatim>\<open>Accept\<close> header, the response, the fresh identifier
  \<^verbatim>\<open>crypto.randomUUID()\<close> gives, the clock and the \<^verbatim>\<open>Last-Event-ID\<close> header. It returns
  the status written, the events sent and the server it leaves.
\<close>

definition handleSSEConnection ::
  "(nat \<Rightarrow> bool) \<Rightarrow> McpHttpServer \<Rightarrow> string option \<Rightarrow> nat \<Rightarrow> string \<Rightarrow> nat \<Rightarrow> string option
     \<Rightarrow> nat \<times> (nat \<times> sse_event) list \<times> McpHttpServer" where
  "handleSSEConnection destroyed s accept res uuid now lastId =
     (if \<not> str_includes (case accept of None \<Rightarrow> [] | Some a \<Rightarrow> a) ''text/event-stream''
      then (406, [], s)
      else
        (let session = \<lparr>session_id = uuid, createdAt = now, streams = [res]\<rparr>;
             stream = \<lparr>response = res, sessionId = uuid, lastEventId = lastId\<rparr>;
             s1 = s\<lparr>sessions := AList.update uuid session (sessions s),
                    activeStreams := set_add stream (activeStreams s)\<rparr>
         in (200,
             sendSSEMessage destroyed res ''endpoint'' (TextData (''/messages?session_id='' @ uuid)) None,
             s1)))"

text \<open>The \<^verbatim>\<open>close\<close> event of the request that opened the stream.\<close>

definition on_stream_close :: "McpHttpServer \<Rightarrow> SSEStream \<Rightarrow> McpHttpServer" where
  "on_stream_close s stream =
     s\<lparr>activeStreams := set_delete stream (activeStreams s),
       sessions := AList.delete (sessionId stream) (sessions s)\<rparr>"

text \<open>
  \<open>handleMessages\<close>. Its outcome: the status and body written to the POST response
  (\<open>None\<close> when none is written), the envelopes handed to the handler, each with
  \<open>True\<close> when the reply callback writes to the stream and \<open>False\<close> when it is the
  empty function, the events written to streams, and the error the function rejected
  with, if any.
\<close>

record post_outcome =
  post_status :: "nat option"
  post_body :: "json option"
  dispatched :: "(json \<times> bool) list"
  post_events :: "(nat \<times> sse_event) list"
  post_thrown :: "js_error option"

definition respond :: "nat \<Rightarrow> json option \<Rightarrow> post_outcome" where
  "respond st b =
     \<lparr>post_status = Some st, post_body = b, dispatched = [], post_events = [], post_thrown = None\<rparr>"

definition error_body :: "string \<Rightarrow> json option" where
  "error_body m = Some (JObj [(''error'', JStr m)])"

definition null_property_error :: js_error where
  "null_property_error = TypeError ''Cannot read properties of null''"

text \<open>\<^verbatim>\<open>messages.some((msg) => msg.id !== undefined && msg.method !== undefined)\<close>\<close>

fun has_requests :: "json list \<Rightarrow> js_error + bool" where
  "has_requests [] = Inr False"
| "has_requests (m # ms) =
     (if m = JNull then Inl null_property_error
      else if js_get m ''id'' \<noteq> None \<and> js_get m ''method'' \<noteq> None then Inr True
      else has_requests ms)"

text \<open>The reply callback of a request: each call takes the next event id and sends the
  response as a \<^verbatim>\<open>message\<close> event.\<close>

fun reply_events ::
  "(nat \<Rightarrow> bool) \<Rightarrow> nat \<Rightarrow> json option \<Rightarrow> nat \<Rightarrow> reply_msg list \<Rightarrow> (nat \<times> sse_event) list \<times> nat" where
  "reply_events destroyed res i c [] = ([], c)"
| "reply_events destroyed res i c (m # ms) =
     (let eventId = Suc c;
          (rest, c') = reply_events destroyed res i eventId ms
      in (sendSSEMessage destroyed res ''message'' (ResponseData (make_response i m))
            (Some (string_of_nat eventId)) @ rest, c'))"

text \<open>The loop over the messages of a submission that holds a request.\<close>

fun process_requests ::
  "(json \<Rightarrow> reply_msg list) \<Rightarrow> (nat \<Rightarrow> bool) \<Rightarrow> nat \<Rightarrow> nat \<Rightarrow> json list \<Rightarrow> post_outcome \<times> nat" where
  "process_requests f destroyed res c [] = (respond 202 None, c)"
| "process_requests f destroyed res c (m # ms) =
     (if m = JNull then
        (\<lparr>post_status = None, post_body = None, dispatched = [], post_events = [],
          post_thrown = Some null_property_error\<rparr>, c)
      else if js_truthy (js_get m ''method'') \<and> js_get m ''id'' \<noteq> None then
        (let (evs, c1) = reply_events destroyed res (js_get m ''id'') c (f m);
             (out, c2) = process_requests f destroyed res c1 ms
         in (out\<lparr>dispatched := (m, True) # dispatched out, post_events := evs @ post_events out\<rparr>, c2))
      else process_requests f destroyed res c ms)"

definition handleMessages ::
  "(string \<Rightarrow> json option) \<Rightarrow> (nat \<Rightarrow> bool) \<Rightarrow> McpHttpServer \<Rightarrow> string option \<Rightarrow> string
     \<Rightarrow> post_outcome \<times> McpHttpServer" where
  "handleMessages parse destroyed s sid body =
     (if (case sid of None \<Rightarrow> True | Some i \<Rightarrow> i = [] \<or> map_of (sessions s) i = None)
      then (respond 404 (error_body ''Session not found''), s)
      else
        (case parse body of
           None \<Rightarrow> (respond 400 (error_body ''Invalid JSON''), s)
         | Some parsed \<Rightarrow>
             (let messages = (case parsed of JArr xs \<Rightarrow> xs | _ \<Rightarrow> [parsed])
              in case has_requests messages of
                   Inl e \<Rightarrow>
                     (\<lparr>post_status = None, post_body = None, dispatched = [], post_events = [],
                       post_thrown = Some e\<rparr>, s)
                 | Inr False \<Rightarrow>
                     ((respond 202 None)
                        \<lparr>dispatched :=
                           map (\<lambda>m. (m, False)) (filter (\<lambda>m. js_truthy (js_get m ''method'')) messages)\<rparr>,
                      s)
                 | Inr True \<Rightarrow>
                     (case find (\<lambda>st. sessionId st = the sid) (activeStreams s) of
                        None \<Rightarrow> (respond 410 (error_body ''SSE connection lost''), s)
                      | Some stream \<Rightarrow>
                          (let (out, c) = process_requests (http_onMessage (http_config s)) destroyed
                                            (response stream) (eventIdCounter s) messages
                           in (out, s\<lparr>eventIdCounter := c\<rparr>))))))"

text \<open>
  \<open>handleRequest\<close>, the router: what it reads of the request, and what it answers, a
  plain response, an opened stream or the outcome of a submission. Every origin is
  accepted (\<^verbatim>\<open>validateOrigin\<close> returns \<^verbatim>\<open>true\<close>).
\<close>

record http_request =
  http_method :: string
  pathname :: string
  query_session_id :: "string option"
  accept_header :: "string option"
  last_event_id_header :: "string option"
  request_body :: string

datatype http_answer =
    Plain nat "json option"
  | Streaming nat "(nat \<times> sse_event) list"
  | Submitted post_outcome

definition rpc_error_body :: "int \<Rightarrow> string \<Rightarrow> json option" where
  "rpc_error_body c m =
     Some (JObj [(''jsonrpc'', JStr ''2.0''),
                 (''error'', JObj [(''code'', JNum c), (''message'', JStr m)]),
                 (''id'', JNull)])"

definition McpHttpServer_handleRequest ::
  "(string \<Rightarrow> json option) \<Rightarrow> (nat \<Rightarrow> bool) \<Rightarrow> McpHttpServer \<Rightarrow> http_request \<Rightarrow> nat \<Rightarrow> string
     \<Rightarrow> nat \<Rightarrow> http_answer \<times> McpHttpServer" where
  "McpHttpServer_handleRequest parse destroyed s req res uuid now =
     (if http_method req = ''OPTIONS'' then (Plain 200 None, s)
      else if pathname req = ''/sse'' then
        (if http_method req = ''GET'' then
           (let (st, evs, s1) = handleSSEConnection destroyed s (accept_header req) res uuid now
                                  (last_event_id_header req)
            in (if st = 200 then Streaming st evs
                else Plain st (Some (JObj [(''error'', JStr ''Must accept text/event-stream'')])), s1))
         else (Plain 405 (rpc_error_body (- 32000) ''Method not allowed. Use GET /sse''), s))
      else if pathname req = ''/messages'' then
        (if http_method req = ''POST'' then
           (let (out, s1) = handleMessages parse destroyed s (query_session_id req) (request_body req)
            in (Submitted out, s1))
         else (Plain 405 (rpc_error_body (- 32000) ''Method not allowed. Use POST /messages''), s))
      else (Plain 404
              (Some (JObj [(''jsonrpc'', JStr ''2.0''),
                           (''error'', JObj [(''code'', JNum (- 32002)),
                                             (''message'', JStr ''Not found. Use /sse or /messages endpoints.'')])])),
            s))"

definition McpHttpServer_stop :: "McpHttpServer \<Rightarrow> McpHttpServer" where
  "McpHttpServer_stop s = s\<lparr>activeStreams := [], sessions := [], server_listening := False\<rparr>"

section \<open>The host application (the collaborators the handlers call)\<close>

text \<open>
  Each call into the host either throws (\<open>Inl\<close>) or returns, and the promise of a read
  or of a write settles. \<open>adapter_getBasePath\<close> is
  \<^verbatim>\<open>getBasePath?.()\<close>, \<open>None\<close> when the adapter has no such method; \<open>new_RegExp\<close>
  compiles a pattern into its \<^verbatim>\<open>test\<close> function; \<open>cwd\<close> is \<^verbatim>\<open>process.cwd()\<close>.

  \<open>run_function\<close> is what happens when the tool \<^verbatim>\<open>obsidian_api\<close> compiles a function body
  with \<^verbatim>\<open>new Function\<close>, calls it on the application and awaits its result. The body is
  code of the caller: it may return, and the tool then has the text of the serialised
  value; it may throw (or not compile, or return a promise that rejects), and the tool
  then has the text of \<^verbatim>\<open>error.message || error\<close>, unless that value cannot be rendered;
  or it may never return, or return a promise that never settles (\<open>Never\<close>). What the body
  does to the vault is the host's affair; it is taken not to reach the transports.
\<close>

datatype run_result =
    Returned string
  | Raised string
  | RaisedUnrenderable
  | Never

record App =
  adapter_read :: "string \<Rightarrow> js_error + string"
  adapter_write :: "string \<Rightarrow> string \<Rightarrow> js_error option"
  vault_getFiles :: "js_error + string list"
  workspace_getActiveFile :: "js_error + string option"
  vault_getName :: "js_error + string"
  adapter_getBasePath :: "js_error + string option"
  new_RegExp :: "string \<Rightarrow> js_error + (string \<Rightarrow> bool)"
  run_function :: "string \<Rightarrow> run_result"
  cwd :: string

text \<open>
  The computations of the JavaScript runtime whose results only feed the text of a reply
  or of a file are parameters: \<open>split_length c s\<close> is \<^verbatim>\<open>c.split(s).length\<close>,
  \<open>replace_first c old new\<close> is \<^verbatim>\<open>c.replace(old, new)\<close>, \<open>render_lines c range\<close> is the
  numbered lines of \<open>c\<close> the tool \<^verbatim>\<open>view\<close> shows for the range asked (or the error thrown
  when the range is converted to numbers), \<open>insert_text c n t\<close> is \<open>c\<close> with the lines of
  \<open>t\<close> spliced in after line \<open>n\<close>, \<open>stringify v\<close> is \<^verbatim>\<open>JSON.stringify(v, null, 2)\<close> and
  \<open>now_iso\<close> is \<^verbatim>\<open>new Date().toISOString()\<close>.
\<close>

record Runtime =
  split_length :: "string \<Rightarrow> string \<Rightarrow> nat"
  replace_first :: "string \<Rightarrow> string \<Rightarrow> string \<Rightarrow> string"
  render_lines :: "string \<Rightarrow> json option \<Rightarrow> js_error + string"
  insert_text :: "string \<Rightarrow> int \<Rightarrow> string \<Rightarrow> string"
  stringify :: "json \<Rightarrow> string"
  now_iso :: string

text \<open>
  The workspace manager, as the tools of the canvas and the diagnostics use it. The
  state it reports holds the active file, with its path and extension, and the data of
  the canvas, when one is loaded; the manager of that state answers for the selection
  and for the relations of a node. \<open>canvas_report site args\<close> is the text of
  \<^verbatim>\<open>JSON.stringify(v, null, 2)\<close> for the value \<open>v\<close> a tool of the canvas assembles for its
  answer at the place \<open>site\<close> of its code (formatted nodes, edges, relations and counts),
  and \<open>canvas_diagnostics\<close> the member \<^verbatim>\<open>canvas\<close> that \<^verbatim>\<open>getDiagnostics\<close> assembles for an active
  canvas: each is the value, or the error thrown while it is made.
\<close>

record CanvasState =
  state_activeFile :: "(string \<times> string) option"
  state_canvasData :: "json option"

record CanvasStateManager =
  getSelectedNodes :: "js_error + json list"
  getSelectedEdges :: "js_error + json list"
  getNodeRelations :: "json \<Rightarrow> js_error + json option"

record WorkspaceManager =
  getCanvasState :: "js_error + CanvasState"
  getCanvasStateManager :: "js_error + CanvasStateManager"
  canvas_report :: "string \<Rightarrow> json option \<Rightarrow> js_error + string"
  canvas_diagnostics :: "js_error + json"

text \<open>\<open>normalizePath\<close> (obsidian/utils.ts), in the variant that first turns backslashes
  into slashes; \<open>None\<close> is \<^verbatim>\<open>null\<close>.\<close>

definition normalizePath :: "string \<Rightarrow> string option" where
  "normalizePath p =
     (let normalized = map (\<lambda>c. if c = CHR 0x5C then CHR ''/'' else c) p;
          cleaned = (if starts_with normalized ''/'' then tl normalized else normalized)
      in if str_includes cleaned ''..'' \<or> str_includes cleaned ''~'' then None else Some cleaned)"

section \<open>The legacy file methods (tools/file-tools.ts)\<close>

definition handleReadFile :: "App \<Rightarrow> McpRequest \<Rightarrow> outcome" where
  "handleReadFile a req =
     (case js_get (or_empty_object (req_params req)) ''path'' of
        Some (JStr p) \<Rightarrow>
          (if p = [] then replied [reply_error (- 32602) ''invalid path parameter'']
           else case normalizePath p of
                  None \<Rightarrow> replied [reply_error (- 32603) ''invalid file path'']
                | Some n \<Rightarrow>
                    (if n = [] then replied [reply_error (- 32603) ''invalid file path'']
                     else case adapter_read a n of
                            Inl e \<Rightarrow> replied [reply_error (- 32603) (''failed to read file: '' @ err_message e)]
                          | Inr content \<Rightarrow> replied [reply_result (JStr content)]))
      | _ \<Rightarrow> replied [reply_error (- 32602) ''invalid path parameter''])"

definition handleWriteFile :: "App \<Rightarrow> McpRequest \<Rightarrow> outcome" where
  "handleWriteFile a req =
     (let ps = or_empty_object (req_params req)
      in case (js_get ps ''path'', js_get ps ''content'') of
           (Some (JStr p), Some (JStr content)) \<Rightarrow>
             (if p = [] then replied [reply_error (- 32602) ''invalid parameters'']
              else case normalizePath p of
                     None \<Rightarrow> replied [reply_error (- 32603) ''invalid file path'']
                   | Some n \<Rightarrow>
                       (if n = [] then replied [reply_error (- 32603) ''invalid file path'']
                        else case adapter_write a n content of
                               Some e \<Rightarrow> replied [reply_error (- 32603) (''failed to write file: '' @ err_message e)]
                             | None \<Rightarrow> replied [reply_result (JBool True)]))
         | _ \<Rightarrow> replied [reply_error (- 32602) ''invalid parameters''])"

definition handleListFiles :: "App \<Rightarrow> McpRequest \<Rightarrow> outcome" where
  "handleListFiles a req =
     (let failed = (\<lambda>e. replied [reply_error (- 32603) (''failed to list files: '' @ err_message e)])
      in case vault_getFiles a of
           Inl e \<Rightarrow> failed e
         | Inr allFiles \<Rightarrow>
             (case js_get (or_empty_object (req_params req)) ''pattern'' of
                Some (JStr pat) \<Rightarrow>
                  (if pat = [] then replied [reply_result (JArr (map JStr allFiles))]
                   else case new_RegExp a pat of
                          Inl e \<Rightarrow> failed e
                        | Inr test \<Rightarrow> replied [reply_result (JArr (map JStr (filter test allFiles)))])
              | _ \<Rightarrow> replied [reply_result (JArr (map JStr allFiles))]))"

definition handleGetOpenFiles :: "App \<Rightarrow> McpRequest \<Rightarrow> outcome" where
  "handleGetOpenFiles a req =
     (case workspace_getActiveFile a of
        Inl e \<Rightarrow> replied [reply_error (- 32603) (''failed to get open files: '' @ err_message e)]
      | Inr None \<Rightarrow> replied [reply_result (JArr [])]
      | Inr (Some p) \<Rightarrow> replied [reply_result (JArr [JStr p])])"

definition handleGetCurrentFile :: "App \<Rightarrow> McpRequest \<Rightarrow> outcome" where
  "handleGetCurrentFile a req =
     (case workspace_getActiveFile a of
        Inl e \<Rightarrow> replied [reply_error (- 32603) (''failed to get current file: '' @ err_message e)]
      | Inr None \<Rightarrow> replied [reply_result JNull]
      | Inr (Some p) \<Rightarrow> replied [reply_result (JStr p)])"

section \<open>The general tools (tools/general-tools.ts)\<close>

definition GENERAL_TOOL_DEFINITIONS :: "ToolDefinition list" where
  \<open>GENERAL_TOOL_DEFINITIONS =
      [\<lparr>name = ''get_current_file'',
        description =
          ''Get the currently active file in Obsidian'',
        inputSchema =
          JObj
            [(''type'', JStr ''object''),
             (''properties'', JObj [])],
        category = ''workspace''\<rparr>,
       \<lparr>name = ''get_workspace_files'',
        description =
          ''List all files in the Obsidian vault'',
        inputSchema =
          JObj
            [(''type'', JStr ''object''),
             (''properties'', JObj
                [(''pattern'', JObj
                    [(''type'', JStr ''string''),
                     (''description'', JStr ''Optional pattern to filter files'')])])],
        category = ''workspace''\<rparr>,
       \<lparr>name = ''view'',
        description =
          ''View the contents of a file or list the contents of a directory in the'' @
                     '' Obsidian vault'',
        inputSchema =
          JObj
            [(''type'', JStr ''object''),
             (''properties'', JObj
                [(''path'', JObj
                    [(''type'', JStr ''string''),
                     (''description'', JStr ''Path to the file or directory to view (relative to vault root)'')]),
                 (''view_range'', JObj
                    [(''type'', JStr ''array''),
                     (''description'', JStr (''Optional array of two integers [start_line, end_line] to view specific'' @
                            '' lines (1-indexed, -1 for end means read to end of file)'')),
                     (''items'', JObj
                        [(''type'', JStr ''integer'')])])])],
        category = ''file''\<rparr>,
       \<lparr>name = ''str_replace'',
        description =
          ''Replace specific text in a file with new text'',
        inputSchema =
          JObj
            [(''type'', JStr ''object''),
             (''properties'', JObj
                [(''path'', JObj
                    [(''type'', JStr ''string''),
                     (''description'', JStr ''Path to the file to modify (relative to vault root)'')]),
                 (''old_str'', JObj
                    [(''type'', JStr ''string''),
                     (''description'', JStr (''The exact text to replace (must match exactly, including whitespace an'' @
                            ''d indentation)''))]),
                 (''new_str'', JObj
                    [(''type'', JStr ''string''),
                     (''description'', JStr ''The new text to insert in place of the old text'')])])],
        category = ''file''\<rparr>,
       \<lparr>name = ''create'',
        description =
          ''Create a new file with specified content in the Obsidian vault'',
        inputSchema =
          JObj
            [(''type'', JStr ''object''),
             (''properties'', JObj
                [(''path'', JObj
                    [(''type'', JStr ''string''),
                     (''description'', JStr ''Path where the new file should be created (relative to vault root)'')]),
                 (''file_text'', JObj
                    [(''type'', JStr ''string''),
                     (''description'', JStr ''The content to write to the new file'')])])],
        category = ''file''\<rparr>,
       \<lparr>name = ''insert'',
        description =
          ''Insert text at a specific line number in a file'',
        inputSchema =
          JObj
            [(''type'', JStr ''object''),
             (''properties'', JObj
                [(''path'', JObj
                    [(''type'', JStr ''string''),
                     (''description'', JStr ''Path to the file to modify (relative to vault root)'')]),
                 (''insert_line'', JObj
                    [(''type'', JStr ''integer''),
                     (''description'', JStr (''Line number after which to insert the text (0 for beginning of file, 1'' @
                            ''-indexed)''))]),
                 (''new_str'', JObj
                    [(''type'', JStr ''string''),
                     (''description'', JStr ''The text to insert'')])])],
        category = ''file''\<rparr>,
       \<lparr>name = ''obsidian_api'',
        description =
          ''Use the Obsidian API directly. This is an experimental tool and should'' @
                     '' be used with caution. Only use this tool when the other Obsidian tool'' @
                     ''s are insufficient.'' @ [CHR 0x0A] @ [CHR 0x0A] @
                     ''IMPORTANT: Be very careful when using this tool. It provides full, unr'' @
                     ''estricted access to the Obsidian API, which allows destructive actions'' @
                     ''.'' @ [CHR 0x0A] @ [CHR 0x0A] @ ''Definitions:'' @ [CHR 0x0A] @
                     ''- '' @ [CHR 0x60] @ ''app'' @ [CHR 0x60] @
                     '' is the Obsidian App instance.'' @ [CHR 0x0A] @ ''- '' @
                     [CHR 0x60] @ ''obsidian'' @ [CHR 0x60] @ '' is the '' @ [CHR 0x27] @
                     ''obsidian'' @ [CHR 0x27] @ '' module import. I.e. the result of '' @
                     [CHR 0x60] @ ''require('' @ [CHR 0x27] @ ''obsidian'' @ [CHR 0x27] @
                     '')'' @ [CHR 0x60] @ '' or '' @ [CHR 0x60] @
                     ''import * as obsidian from '' @ [CHR 0x27] @ ''obsidian'' @
                     [CHR 0x27] @ [CHR 0x60] @ ''.'' @ [CHR 0x0A] @ [CHR 0x0A] @
                     ''How to use:'' @ [CHR 0x0A] @
                     ''- Write a function body as a string that takes the Obsidian '' @
                     [CHR 0x60] @ ''app'' @ [CHR 0x60] @
                     '' instance as the first argument and the '' @ [CHR 0x60] @
                     ''obsidian'' @ [CHR 0x60] @ '' module as the second argument.'' @
                     [CHR 0x0A] @ ''  - Example: '' @ [CHR 0x60] @
                     ''"return typeof app === undefined;"'' @ [CHR 0x60] @
                     ''. This will return '' @ [CHR 0x60] @ ''false'' @ [CHR 0x60] @
                     '', since '' @ [CHR 0x60] @ ''app'' @ [CHR 0x60] @
                     '' is the first argument and is defined.'' @ [CHR 0x0A] @
                     ''  - The string will be evaluated using the '' @ [CHR 0x60] @
                     ''new Function'' @ [CHR 0x60] @ '' constructor. '' @ [CHR 0x60] @
                     ''new Function('' @ [CHR 0x27] @ ''app'' @ [CHR 0x27] @ '', '' @
                     [CHR 0x27] @ ''obsidian'' @ [CHR 0x27] @ '', yourCode)'' @
                     [CHR 0x60] @ ''.'' @ [CHR 0x0A] @
                     ''  - The App object is documented here: https://docs.obsidian.md/Refere'' @
                     ''nce/TypeScript+API/App. Make use of your expertise with Obsidian plugi'' @
                     ''ns to utilise this API.'' @ [CHR 0x0A] @
                     ''- Pass the function definition as a string to this tool.'' @
                     [CHR 0x0A] @ ''- The function will be called with the Obsidian '' @
                     [CHR 0x60] @ ''app'' @ [CHR 0x60] @
                     '' instance as the first argument, and the '' @ [CHR 0x60] @
                     ''obsidian'' @ [CHR 0x60] @ '' module as the second argument.'' @
                     [CHR 0x0A] @
                     ''- The return value of your function will be returned as the result of '' @
                     ''this tool.'' @ [CHR 0x0A] @ ''- NOTE: The '' @ [CHR 0x60] @
                     ''obsidian'' @ [CHR 0x60] @
                     '' module is provided as an argument so that you do not need to '' @
                     [CHR 0x60] @ ''require'' @ [CHR 0x60] @ '' or '' @ [CHR 0x60] @
                     ''import'' @ [CHR 0x60] @
                     '' it in your function body. Neither of these are available in the globa'' @
                     ''l scope and will not be available to the function.'' @ [CHR 0x0A] @
                     ''- NOTE: A return value is not required. If your function has a return '' @
                     ''statement we will attempt to serialize the value using JSON.stringify.'' @
                     [CHR 0x0A] @
                     ''- NOTE: Any error thrown by your function will be caught and returned '' @
                     ''as an error object.'',
        inputSchema =
          JObj
            [(''type'', JStr ''object''),
             (''properties'', JObj
                [(''functionBody'', JObj
                    [(''type'', JStr ''string''),
                     (''description'', JStr (''The full function body, as a plain string, to be called with the Obsid'' @
                            ''ian '' @ [CHR 0x60] @ ''app'' @ [CHR 0x60] @
                            '' instance as the first argument and '' @ [CHR 0x60] @
                            ''obsidian'' @ [CHR 0x60] @
                            '' module as the second argument.''))])])],
        category = ''general''\<rparr>]\<close>

text \<open>\<^verbatim>\<open>s.endsWith(t)\<close>, and the answer every tool gives on success: a result whose content
  is one text.\<close>

definition ends_with :: "string \<Rightarrow> string \<Rightarrow> bool" where
  "ends_with s t = starts_with (rev s) (rev t)"

definition text_reply :: "string \<Rightarrow> outcome" where
  "text_reply t = replied [reply_result (text_content t)]"

definition error_reply :: "int \<Rightarrow> string \<Rightarrow> outcome" where
  "error_reply c m = replied [reply_error c m]"

text \<open>The handlers, in the order of \<open>createImplementations\<close>. The first two have no
  \<^verbatim>\<open>try\<close>: what the host throws leaves the handler. In the others the \<^verbatim>\<open>catch\<close> replies
  with an internal error.\<close>

definition get_current_file :: "App \<Rightarrow> json option \<Rightarrow> outcome" where
  "get_current_file a args =
     (case workspace_getActiveFile a of
        Inl e \<Rightarrow> threw e
      | Inr None \<Rightarrow> text_reply ''No file currently active''
      | Inr (Some p) \<Rightarrow> text_reply (''Current file: '' @ p))"

definition get_workspace_files :: "App \<Rightarrow> json option \<Rightarrow> outcome" where
  "get_workspace_files a args =
     (let listing = (\<lambda>fs. text_reply (''Files in vault:'' @ [CHR 0x0A] @ intercalate [CHR 0x0A] fs))
      in case vault_getFiles a of
           Inl e \<Rightarrow> threw e
         | Inr allFiles \<Rightarrow>
             (case js_get (or_empty_object args) ''pattern'' of
                Some (JStr pat) \<Rightarrow>
                  (if pat = [] then listing allFiles
                   else case new_RegExp a pat of
                          Inl e \<Rightarrow> threw e
                        | Inr test \<Rightarrow> listing (filter test allFiles))
              | _ \<Rightarrow> listing allFiles))"

definition view :: "App \<Rightarrow> Runtime \<Rightarrow> json option \<Rightarrow> outcome" where
  "view a rt args =
     (let failed = (\<lambda>e. error_reply (- 32603) (''failed to view file/directory: '' @ err_message e))
      in case js_get (or_empty_object args) ''path'' of
           Some (JStr p) \<Rightarrow>
             (if p = [] then error_reply (- 32602) ''invalid path parameter''
              else case normalizePath p of
                     None \<Rightarrow> error_reply (- 32603) ''invalid file path''
                   | Some n \<Rightarrow>
                       (if n = [] then error_reply (- 32603) ''invalid file path''
                        else case vault_getFiles a of
                               Inl e \<Rightarrow> failed e
                             | Inr allFiles \<Rightarrow>
                                 (let isDirectory =
                                        list_ex (\<lambda>f. starts_with f (n @ ''/'') \<or>
                                                     (ends_with n ''/'' \<and> starts_with f n)) allFiles
                                  in if isDirectory \<or> ends_with n ''/'' then
                                       (let dirPath = (if ends_with n ''/'' then n else n @ ''/'');
                                            dirFiles = filter (\<lambda>f. starts_with f dirPath \<and>
                                                          \<not> str_includes (drop (length dirPath) f) ''/'')
                                                         allFiles
                                        in text_reply
                                             (if dirFiles \<noteq> []
                                              then ''Directory contents:'' @ [CHR 0x0A] @
                                                   intercalate [CHR 0x0A] dirFiles
                                              else ''Directory is empty or does not exist''))
                                     else
                                       (case adapter_read a n of
                                          Inl e \<Rightarrow> failed e
                                        | Inr content \<Rightarrow>
                                            (case render_lines rt content
                                                    (js_get (or_empty_object args) ''view_range'') of
                                               Inl e \<Rightarrow> failed e
                                             | Inr shown \<Rightarrow> text_reply shown)))))
         | _ \<Rightarrow> error_reply (- 32602) ''invalid path parameter'')"

definition str_replace :: "App \<Rightarrow> Runtime \<Rightarrow> json option \<Rightarrow> outcome" where
  "str_replace a rt args =
     (let failed = (\<lambda>e. error_reply (- 32603) (''failed to replace text: '' @ err_message e));
          ps = or_empty_object args
      in case (js_get ps ''path'', js_get ps ''old_str'', js_get ps ''new_str'') of
           (Some (JStr p), Some (JStr old_str), Some (JStr new_str)) \<Rightarrow>
             (if p = [] then error_reply (- 32602) ''invalid parameters''
              else case normalizePath p of
                     None \<Rightarrow> error_reply (- 32603) ''invalid file path''
                   | Some n \<Rightarrow>
                       (if n = [] then error_reply (- 32603) ''invalid file path''
                        else case adapter_read a n of
                               Inl e \<Rightarrow> failed e
                             | Inr content \<Rightarrow>
                                 (let matches = int (split_length rt content old_str) - 1
                                  in if matches = 0 then
                                       error_reply (- 32603) ''No match found for replacement text''
                                     else if matches > 1 then
                                       error_reply (- 32603)
                                         (''Found '' @ string_of_int matches @
                                          '' matches for replacement text. Please provide more specific text to match exactly one location.'')
                                     else
                                       (case adapter_write a n (replace_first rt content old_str new_str) of
                                          Some e \<Rightarrow> failed e
                                        | None \<Rightarrow>
                                            text_reply
                                              ''Successfully replaced text at exactly one location.''))))
         | _ \<Rightarrow> error_reply (- 32602) ''invalid parameters'')"

definition create :: "App \<Rightarrow> json option \<Rightarrow> outcome" where
  "create a args =
     (let ps = or_empty_object args
      in case (js_get ps ''path'', js_get ps ''file_text'') of
           (Some (JStr p), Some (JStr file_text)) \<Rightarrow>
             (if p = [] then error_reply (- 32602) ''invalid parameters''
              else case normalizePath p of
                     None \<Rightarrow> error_reply (- 32603) ''invalid file path''
                   | Some n \<Rightarrow>
                       (if n = [] then error_reply (- 32603) ''invalid file path''
                        else case adapter_read a n of
                               Inr content \<Rightarrow>
                                 error_reply (- 32603)
                                   ''File already exists. Use str_replace to modify existing files.''
                             | Inl missing \<Rightarrow>
                                 (case adapter_write a n file_text of
                                    Some e \<Rightarrow>
                                      error_reply (- 32603) (''failed to create file: '' @ err_message e)
                                  | None \<Rightarrow> text_reply (''Successfully created file: '' @ p))))
         | _ \<Rightarrow> error_reply (- 32602) ''invalid parameters'')"

definition insert_tool :: "App \<Rightarrow> Runtime \<Rightarrow> json option \<Rightarrow> outcome" where
  "insert_tool a rt args =
     (let failed = (\<lambda>e. error_reply (- 32603) (''failed to insert text: '' @ err_message e));
          ps = or_empty_object args
      in case (js_get ps ''path'', js_get ps ''insert_line'', js_get ps ''new_str'') of
           (Some (JStr p), Some (JNum insert_line), Some (JStr new_str)) \<Rightarrow>
             (if p = [] then error_reply (- 32602) ''invalid parameters''
              else case normalizePath p of
                     None \<Rightarrow> error_reply (- 32603) ''invalid file path''
                   | Some n \<Rightarrow>
                       (if n = [] then error_reply (- 32603) ''invalid file path''
                        else case adapter_read a n of
                               Inl e \<Rightarrow> failed e
                             | Inr content \<Rightarrow>
                                 (let len = int (split_length rt content [CHR 0x0A])
                                  in if insert_line < 0 \<or> insert_line > len then
                                       error_reply (- 32603)
                                         (''Invalid insert_line '' @ string_of_int insert_line @
                                          ''. Must be between 0 and '' @ string_of_int len)
                                     else
                                       (case adapter_write a n (insert_text rt content insert_line new_str) of
                                          Some e \<Rightarrow> failed e
                                        | None \<Rightarrow>
                                            text_reply
                                              (''Successfully inserted text at line '' @
                                               string_of_int insert_line @ '' in '' @ p)))))
         | _ \<Rightarrow> error_reply (- 32602) ''invalid parameters'')"

definition obsidian_api :: "App \<Rightarrow> json option \<Rightarrow> outcome" where
  "obsidian_api a args =
     (case js_get (or_empty_object args) ''functionBody'' of
        Some (JStr functionBody) \<Rightarrow>
          (if functionBody = [] then
             error_reply (- 32602) ''functionBody parameter is required and must be a string''
           else case run_function a functionBody of
                  Returned serializedResult \<Rightarrow>
                    text_reply (''Function executed successfully.'' @ [CHR 0x0A] @ ''Result: '' @
                                serializedResult)
                | Raised m \<Rightarrow> error_reply (- 32603) (''Error executing function: '' @ m)
                | RaisedUnrenderable \<Rightarrow> threw (TypeError ''Cannot convert object to primitive value'')
                | Never \<Rightarrow> pending)
      | _ \<Rightarrow> error_reply (- 32602) ''functionBody parameter is required and must be a string'')"

definition GeneralTools_createImplementations :: "App \<Rightarrow> Runtime \<Rightarrow> ToolImplementation list" where
  "GeneralTools_createImplementations a rt =
     [\<lparr>impl_name = ''get_current_file'', handler = get_current_file a\<rparr>,
      \<lparr>impl_name = ''get_workspace_files'', handler = get_workspace_files a\<rparr>,
      \<lparr>impl_name = ''view'', handler = view a rt\<rparr>,
      \<lparr>impl_name = ''str_replace'', handler = str_replace a rt\<rparr>,
      \<lparr>impl_name = ''create'', handler = create a\<rparr>,
      \<lparr>impl_name = ''insert'', handler = insert_tool a rt\<rparr>,
      \<lparr>impl_name = ''obsidian_api'', handler = obsidian_api a\<rparr>]"

section \<open>The tools of the IDE (ide/ide-tools.ts)\<close>

definition IDE_TOOL_DEFINITIONS :: "ToolDefinition list" where
  \<open>IDE_TOOL_DEFINITIONS =
      [\<lparr>name = ''openDiff'',
        description =
          ''Open a diff view (stub implementation for Obsidian compatibility)'',
        inputSchema =
          JObj
            [(''type'', JStr ''object''),
             (''properties'', JObj
                [(''old_file_path'', JObj
                    [(''type'', JStr ''string''),
                     (''description'', JStr ''Path to the old version of the file'')]),
                 (''new_file_path'', JObj
                    [(''type'', JStr ''string''),
                     (''description'', JStr ''Path to the new version of the file'')]),
                 (''new_file_contents'', JObj
                    [(''type'', JStr ''string''),
                     (''description'', JStr ''Contents of the new file version'')]),
                 (''tab_name'', JObj
                    [(''type'', JStr ''string''),
                     (''description'', JStr ''Name of the tab to open'')])])],
        category = ''ide-specific''\<rparr>,
       \<lparr>name = ''close_tab'',
        description =
          ''Close a tab (stub implementation for Obsidian compatibility)'',
        inputSchema =
          JObj
            [(''type'', JStr ''object''),
             (''properties'', JObj
                [(''tab_name'', JObj
                    [(''type'', JStr ''string''),
                     (''description'', JStr ''Name of the tab to close'')])])],
        category = ''ide-specific''\<rparr>,
       \<lparr>name = ''closeAllDiffTabs'',
        description =
          ''Close all diff tabs (stub implementation for Obsidian compatibility)'',
        inputSchema =
          JObj
            [(''type'', JStr ''object''),
             (''properties'', JObj [])],
        category = ''ide-specific''\<rparr>,
       \<lparr>name = ''getDiagnostics'',
        description =
          ''Get system and vault diagnostic information'',
        inputSchema =
          JObj
            [(''type'', JStr ''object''),
             (''properties'', JObj [])],
        category = ''ide-specific''\<rparr>]\<close>

text \<open>The first two log their arguments through a template literal before they
  acknowledge, and no handler but the last has a \<^verbatim>\<open>try\<close>. In the last, the extension of
  the active file is read off its path.\<close>

definition openDiff :: "json option \<Rightarrow> outcome" where
  "openDiff args =
     (case (js_template (js_get (or_empty_object args) ''old_file_path''),
            js_template (js_get (or_empty_object args) ''tab_name'')) of
        (Some f, Some t) \<Rightarrow> text_reply ''Diff view opened in Obsidian (no visual diff available)''
      | _ \<Rightarrow> threw (TypeError ''Cannot convert object to primitive value''))"

definition close_tab :: "json option \<Rightarrow> outcome" where
  "close_tab args =
     (case js_template (js_get (or_empty_object args) ''tab_name'') of
        Some t \<Rightarrow> text_reply ''Tab closed successfully''
      | None \<Rightarrow> threw (TypeError ''Cannot convert object to primitive value''))"

definition closeAllDiffTabs :: "json option \<Rightarrow> outcome" where
  "closeAllDiffTabs args = text_reply ''All diff tabs closed successfully''"

definition getDiagnostics :: "App \<Rightarrow> Runtime \<Rightarrow> WorkspaceManager option \<Rightarrow> json option \<Rightarrow> outcome" where
  "getDiagnostics a rt wm args =
     (let failed = (\<lambda>e. error_reply (- 32603) (''failed to get diagnostics: '' @ err_message e))
      in case workspace_getActiveFile a of
           Inl e \<Rightarrow> failed e
         | Inr activeFile \<Rightarrow>
             (case vault_getName a of
                Inl e \<Rightarrow> failed e
              | Inr vaultName \<Rightarrow>
                  (case vault_getFiles a of
                     Inl e \<Rightarrow> failed e
                   | Inr fs \<Rightarrow>
                       (let canvas =
                              (case (activeFile, wm) of
                                 (Some p, Some w) \<Rightarrow>
                                   if ends_with p ''.canvas'' then canvas_diagnostics w
                                   else Inr (JObj [(''isActive'', JBool False)])
                               | _ \<Rightarrow> Inr (JObj [(''isActive'', JBool False)]))
                        in case canvas of
                             Inl e \<Rightarrow> failed e
                           | Inr c \<Rightarrow>
                               replied [reply_result
                                 (JObj [(''diagnostics'', JArr []),
                                        (''systemInfo'',
                                           JObj [(''vaultName'', JStr vaultName),
                                                 (''fileCount'', JNum (int (length fs))),
                                                 (''activeFile'',
                                                    (case activeFile of None \<Rightarrow> JNull
                                                     | Some p \<Rightarrow> if p = [] then JNull else JStr p)),
                                                 (''timestamp'', JStr (now_iso rt)),
                                                 (''canvas'', c)])])]))))"

definition IdeTools_createImplementations ::
  "App \<Rightarrow> Runtime \<Rightarrow> WorkspaceManager option \<Rightarrow> ToolImplementation list" where
  "IdeTools_createImplementations a rt wm =
     [\<lparr>impl_name = ''openDiff'', handler = openDiff\<rparr>,
      \<lparr>impl_name = ''close_tab'', handler = close_tab\<rparr>,
      \<lparr>impl_name = ''closeAllDiffTabs'', handler = closeAllDiffTabs\<rparr>,
      \<lparr>impl_name = ''getDiagnostics'', handler = getDiagnostics a rt wm\<rparr>]"

section \<open>The tools of the canvas (tools/canvas-tools.ts)\<close>

definition CANVAS_TOOL_DEFINITIONS :: "ToolDefinition list" where
  \<open>CANVAS_TOOL_DEFINITIONS =
      [\<lparr>name = ''getCanvasState'',
        description =
          ''Get the current canvas state including selected nodes, edges, groups, '' @
                     ''and text'',
        inputSchema =
          JObj
            [(''type'', JStr ''object''),
             (''properties'', JObj [])],
        category = ''canvas''\<rparr>,
       \<lparr>name = ''getSelectedCanvasNodes'',
        description =
          ''Get detailed information about currently selected canvas nodes includi'' @
                     ''ng their connections and parent groups'',
        inputSchema =
          JObj
            [(''type'', JStr ''object''),
             (''properties'', JObj [])],
        category = ''canvas''\<rparr>,
       \<lparr>name = ''getCanvasNodeRelations'',
        description =
          ''Get relationships and connections for canvas nodes'',
        inputSchema =
          JObj
            [(''type'', JStr ''object''),
             (''properties'', JObj
                [(''nodeId'', JObj
                    [(''type'', JStr ''string''),
                     (''description'', JStr (''Optional specific node ID to get relations for. If not provided, gets '' @
                            ''relations for selected nodes''))])])],
        category = ''canvas''\<rparr>,
       \<lparr>name = ''getCanvasGroups'',
        description =
          ''Get all groups in the canvas and their child nodes'',
        inputSchema =
          JObj
            [(''type'', JStr ''object''),
             (''properties'', JObj [])],
        category = ''canvas''\<rparr>,
       \<lparr>name = ''findCanvasNodes'',
        description =
          ''Find canvas nodes by content search'',
        inputSchema =
          JObj
            [(''type'', JStr ''object''),
             (''properties'', JObj
                [(''query'', JObj
                    [(''type'', JStr ''string''),
                     (''description'', JStr ''Search query to find in node content'')]),
                 (''type'', JObj
                    [(''type'', JStr ''string''),
                     (''description'', JStr ''Optional node type filter (text, file, link, group)''),
                     (''enum'', JArr [JStr ''text'', JStr ''file'', JStr ''link'', JStr ''group''])])])],
        category = ''canvas''\<rparr>,
       \<lparr>name = ''getCanvasEdges'',
        description =
          ''Get canvas edges (connections between nodes)'',
        inputSchema =
          JObj
            [(''type'', JStr ''object''),
             (''properties'', JObj
                [(''nodeId'', JObj
                    [(''type'', JStr ''string''),
                     (''description'', JStr ''Optional node ID to get edges connected to that specific node'')])])],
        category = ''canvas''\<rparr>]\<close>

text \<open>
  \<open>js_member v k\<close> is \<^verbatim>\<open>v.k\<close> for a value that may be \<^verbatim>\<open>undefined\<close> or \<^verbatim>\<open>null\<close>, of which no
  member can be read. No tool of the canvas has a \<^verbatim>\<open>try\<close>: whatever a call throws before
  the reply leaves the handler (\<open>calling\<close>).
\<close>

definition js_member :: "json option \<Rightarrow> string \<Rightarrow> js_error + json option" where
  "js_member v k =
     (case v of
        None \<Rightarrow> Inl (TypeError ''Cannot read properties of undefined'')
      | Some JNull \<Rightarrow> Inl (TypeError ''Cannot read properties of null'')
      | Some x \<Rightarrow> Inr (js_get x k))"

definition calling :: "js_error + 'a \<Rightarrow> ('a \<Rightarrow> outcome) \<Rightarrow> outcome" where
  "calling c k = (case c of Inl e \<Rightarrow> threw e | Inr v \<Rightarrow> k v)"

definition no_manager :: outcome where
  "no_manager = error_reply (- 32603) ''Workspace manager not available''"

definition no_canvas :: outcome where
  "no_canvas = error_reply (- 32603) ''No active canvas''"

text \<open>The reply made from the value assembled at a place of the code.\<close>

definition report_reply :: "WorkspaceManager \<Rightarrow> string \<Rightarrow> json option \<Rightarrow> outcome" where
  "report_reply w site args = calling (canvas_report w site args) text_reply"

definition getCanvasState_tool :: "Runtime \<Rightarrow> WorkspaceManager option \<Rightarrow> json option \<Rightarrow> outcome" where
  "getCanvasState_tool rt wm args =
     (case wm of
        None \<Rightarrow> no_manager
      | Some w \<Rightarrow>
          calling (getCanvasState w) (\<lambda>state.
          calling (getCanvasStateManager w) (\<lambda>manager.
            case state_activeFile state of
              None \<Rightarrow>
                text_reply (stringify rt
                  (JObj [(''isCanvas'', JBool False), (''message'', JStr ''No active canvas file'')]))
            | Some (path, extension) \<Rightarrow>
                if extension \<noteq> ''canvas'' then
                  text_reply (stringify rt
                    (JObj [(''isCanvas'', JBool False), (''activeFile'', JStr path),
                           (''message'', JStr ''Active file is not a canvas'')]))
                else
                  calling (getSelectedNodes manager) (\<lambda>selectedNodes.
                  calling (getSelectedEdges manager) (\<lambda>selectedEdges.
                    report_reply w ''getCanvasState'' args)))))"

definition getSelectedCanvasNodes :: "Runtime \<Rightarrow> WorkspaceManager option \<Rightarrow> json option \<Rightarrow> outcome" where
  "getSelectedCanvasNodes rt wm args =
     (case wm of
        None \<Rightarrow> no_manager
      | Some w \<Rightarrow>
          calling (getCanvasStateManager w) (\<lambda>manager.
          calling (getSelectedNodes manager) (\<lambda>selectedNodes.
            if selectedNodes = [] then
              text_reply (stringify rt
                (JObj [(''selectedNodes'', JArr []), (''message'', JStr ''No canvas nodes selected'')]))
            else report_reply w ''getSelectedCanvasNodes'' args)))"

text \<open>The answer to a node that has no relations; its text renders the identifier.\<close>

definition node_not_found :: "json option \<Rightarrow> outcome" where
  "node_not_found nodeId =
     (case js_template nodeId of
        None \<Rightarrow> threw (TypeError ''Cannot convert object to primitive value'')
      | Some s \<Rightarrow> error_reply (- 32603) (''Node '' @ s @ '' not found''))"

definition getCanvasNodeRelations :: "Runtime \<Rightarrow> WorkspaceManager option \<Rightarrow> json option \<Rightarrow> outcome" where
  "getCanvasNodeRelations rt wm args =
     (case wm of
        None \<Rightarrow> no_manager
      | Some w \<Rightarrow>
          calling (getCanvasStateManager w) (\<lambda>manager.
          calling (getCanvasState w) (\<lambda>state.
            if \<not> js_truthy (state_canvasData state) then no_canvas
            else
              calling (js_member args ''nodeId'') (\<lambda>nodeId.
                if js_truthy nodeId then
                  calling (getNodeRelations manager (the nodeId)) (\<lambda>relations.
                    if \<not> js_truthy relations then node_not_found nodeId
                    else report_reply w ''getCanvasNodeRelations.node'' args)
                else
                  calling (getSelectedNodes manager) (\<lambda>selectedNodes.
                    if selectedNodes = [] then
                      text_reply (stringify rt
                        (JObj [(''message'',
                           JStr ''No nodes selected. Provide a nodeId parameter or select nodes in the canvas.'')]))
                    else report_reply w ''getCanvasNodeRelations.selected'' args)))))"

definition getCanvasGroups :: "Runtime \<Rightarrow> WorkspaceManager option \<Rightarrow> json option \<Rightarrow> outcome" where
  "getCanvasGroups rt wm args =
     (case wm of
        None \<Rightarrow> no_manager
      | Some w \<Rightarrow>
          calling (getCanvasStateManager w) (\<lambda>manager.
          calling (getCanvasState w) (\<lambda>state.
            if \<not> js_truthy (state_canvasData state) then no_canvas
            else report_reply w ''getCanvasGroups'' args)))"

text \<open>\<^verbatim>\<open>v.toLowerCase()\<close> and \<^verbatim>\<open>v?.toLowerCase()\<close>: only a string has the method, and the
  second form passes \<^verbatim>\<open>undefined\<close> and \<^verbatim>\<open>null\<close> on.\<close>

definition toLowerCase :: "json option \<Rightarrow> js_error + unit" where
  "toLowerCase v =
     (case v of
        Some (JStr s) \<Rightarrow> Inr ()
      | None \<Rightarrow> Inl (TypeError ''Cannot read properties of undefined'')
      | Some JNull \<Rightarrow> Inl (TypeError ''Cannot read properties of null'')
      | Some other \<Rightarrow> Inl (TypeError ''toLowerCase is not a function''))"

definition toLowerCase_optional :: "json option \<Rightarrow> js_error + unit" where
  "toLowerCase_optional v =
     (case v of None \<Rightarrow> Inr () | Some JNull \<Rightarrow> Inr () | Some other \<Rightarrow> toLowerCase v)"

definition findCanvasNodes :: "Runtime \<Rightarrow> WorkspaceManager option \<Rightarrow> json option \<Rightarrow> outcome" where
  "findCanvasNodes rt wm args =
     (case wm of
        None \<Rightarrow> no_manager
      | Some w \<Rightarrow>
          calling (getCanvasState w) (\<lambda>state.
            if \<not> js_truthy (state_canvasData state) then no_canvas
            else
              calling (js_member args ''query'') (\<lambda>q.
              calling (toLowerCase q) (\<lambda>query.
              calling (js_member args ''type'') (\<lambda>t.
              calling (toLowerCase_optional t) (\<lambda>typeFilter.
                report_reply w ''findCanvasNodes'' args))))))"

definition getCanvasEdges :: "Runtime \<Rightarrow> WorkspaceManager option \<Rightarrow> json option \<Rightarrow> outcome" where
  "getCanvasEdges rt wm args =
     (case wm of
        None \<Rightarrow> no_manager
      | Some w \<Rightarrow>
          calling (getCanvasState w) (\<lambda>state.
          calling (getCanvasStateManager w) (\<lambda>manager.
            if \<not> js_truthy (state_canvasData state) then no_canvas
            else
              calling (js_member args ''nodeId'') (\<lambda>nodeId.
                if js_truthy nodeId then
                  calling (getNodeRelations manager (the nodeId)) (\<lambda>relations.
                    if \<not> js_truthy relations then node_not_found nodeId
                    else report_reply w ''getCanvasEdges.node'' args)
                else
                  calling (getSelectedEdges manager) (\<lambda>selectedEdges.
                    report_reply w ''getCanvasEdges.selected'' args)))))"

definition CanvasTools_createImplementations ::
  "Runtime \<Rightarrow> WorkspaceManager option \<Rightarrow> ToolImplementation list" where
  "CanvasTools_createImplementations rt wm =
     [\<lparr>impl_name = ''getCanvasState'', handler = getCanvasState_tool rt wm\<rparr>,
      \<lparr>impl_name = ''getSelectedCanvasNodes'', handler = getSelectedCanvasNodes rt wm\<rparr>,
      \<lparr>impl_name = ''getCanvasNodeRelations'', handler = getCanvasNodeRelations rt wm\<rparr>,
      \<lparr>impl_name = ''getCanvasGroups'', handler = getCanvasGroups rt wm\<rparr>,
      \<lparr>impl_name = ''findCanvasNodes'', handler = findCanvasNodes rt wm\<rparr>,
      \<lparr>impl_name = ''getCanvasEdges'', handler = getCanvasEdges rt wm\<rparr>]"

section \<open>The IDE handler (ide/ide-handler.ts)\<close>

definition isIdeMethod :: "json option \<Rightarrow> bool" where
  "isIdeMethod m = (m = Some (JStr ''ide_connected'') \<or> m = Some (JStr ''notifications/initialized''))"

text \<open>\<open>IdeHandler.handleRequest\<close> returns whether it handled the method, with the delays
  of the timers it set, or throws. It never calls the reply callback.\<close>

definition ide_handleRequest :: "McpRequest \<Rightarrow> js_error + bool \<times> nat list" where
  "ide_handleRequest req =
     (if req_method req = Some (JStr ''ide_connected'') then
        (case js_template (js_get (or_empty_object (req_params req)) ''pid'') of
           None \<Rightarrow> Inl (TypeError ''Cannot convert object to primitive value'')
         | Some s \<Rightarrow> Inr (True, []))
      else if req_method req = Some (JStr ''notifications/initialized'') then Inr (True, [200])
      else Inr (False, []))"

section \<open>The dispatcher (mcp/handlers.ts)\<close>

datatype source = Ws | Http

record McpHandlers =
  app :: App
  wsToolRegistry :: ToolRegistry
  httpToolRegistry :: ToolRegistry

text \<open>What a dispatch does: the replies, whether its promise settles, the error it
  rejected with, and the timers set.\<close>

record dispatch_outcome = outcome +
  timers :: "nat list"

definition dispatched_as :: "outcome \<Rightarrow> dispatch_outcome" where
  "dispatched_as out =
     \<lparr>emitted = emitted out, thrown = thrown out, settles = settles out, timers = []\<rparr>"

definition registry_for :: "McpHandlers \<Rightarrow> source \<Rightarrow> ToolRegistry" where
  "registry_for h src = (if src = Ws then wsToolRegistry h else httpToolRegistry h)"

definition initialize_result :: json where
  "initialize_result =
     JObj [(''protocolVersion'', JStr ''2024-11-05''),
           (''capabilities'',
              JObj [(''roots'', JObj [(''listChanged'', JBool False)]),
                    (''tools'', JObj [(''listChanged'', JBool False)]),
                    (''resources'', JObj [(''subscribe'', JBool False), (''listChanged'', JBool False)]),
                    (''prompts'', JObj [(''listChanged'', JBool False)])]),
           (''serverInfo'',
              JObj [(''name'', JStr ''obsidian-claude-code-mcp''), (''version'', JStr ''1.0.0'')])]"

definition handleInitialize :: "McpRequest \<Rightarrow> outcome" where
  "handleInitialize req = replied [reply_result initialize_result]"

definition tool_json :: "Tool \<Rightarrow> json" where
  "tool_json t =
     JObj [(''name'', JStr (name t)), (''description'', JStr (description t)),
           (''inputSchema'', inputSchema t)]"

definition handleToolsList :: "McpHandlers \<Rightarrow> McpRequest \<Rightarrow> source \<Rightarrow> outcome" where
  "handleToolsList h req src =
     replied [reply_result
       (JObj [(''tools'', JArr (map tool_json (getToolDefinitions (registry_for h src) None)))])]"

definition handlePromptsList :: "McpRequest \<Rightarrow> outcome" where
  "handlePromptsList req = replied [reply_result (JObj [(''prompts'', JArr [])])]"

definition handleResourcesList :: "McpRequest \<Rightarrow> outcome" where
  "handleResourcesList req = replied [reply_result (JObj [(''resources'', JArr [])])]"

definition handleGetWorkspaceInfo :: "McpHandlers \<Rightarrow> McpRequest \<Rightarrow> outcome" where
  "handleGetWorkspaceInfo h req =
     (let failed = (\<lambda>e. replied [reply_error (- 32603) (''failed to get workspace info: '' @ err_message e)])
      in case vault_getName (app h) of
           Inl e \<Rightarrow> failed e
         | Inr vaultName \<Rightarrow>
             (case adapter_getBasePath (app h) of
                Inl e \<Rightarrow> failed e
              | Inr bp \<Rightarrow>
                  (case vault_getFiles (app h) of
                     Inl e \<Rightarrow> failed e
                   | Inr fs \<Rightarrow>
                       replied [reply_result
                         (JObj [(''name'', JStr vaultName),
                                (''path'', JStr (case bp of None \<Rightarrow> ''unknown''
                                                 | Some b \<Rightarrow> if b = [] then ''unknown'' else b)),
                                (''fileCount'', JNum (int (length fs))),
                                (''type'', JStr ''obsidian-vault'')])])))"

definition handleRequestGeneric :: "McpHandlers \<Rightarrow> McpRequest \<Rightarrow> source \<Rightarrow> dispatch_outcome" where
  "handleRequestGeneric h req src =
     (let m = req_method req;
          ide = (if isIdeMethod m then ide_handleRequest req else Inr (False, []))
      in case ide of
           Inl e \<Rightarrow> \<lparr>emitted = [], thrown = Some e, settles = True, timers = []\<rparr>
         | Inr (handled, ts) \<Rightarrow>
             if handled then \<lparr>emitted = [], thrown = None, settles = True, timers = ts\<rparr>
             else
               (dispatched_as
                 (if m = Some (JStr ''initialize'') then handleInitialize req
                  else if m = Some (JStr ''tools/list'') then handleToolsList h req src
                  else if m = Some (JStr ''prompts/list'') then handlePromptsList req
                  else if m = Some (JStr ''ping'') then replied [reply_result (JStr ''pong'')]
                  else if m = Some (JStr ''readFile'') then handleReadFile (app h) req
                  else if m = Some (JStr ''writeFile'') then handleWriteFile (app h) req
                  else if m = Some (JStr ''getOpenFiles'') then handleGetOpenFiles (app h) req
                  else if m = Some (JStr ''listFiles'') then handleListFiles (app h) req
                  else if m = Some (JStr ''getCurrentFile'') then handleGetCurrentFile (app h) req
                  else if m = Some (JStr ''getWorkspaceInfo'') then handleGetWorkspaceInfo h req
                  else if m = Some (JStr ''tools/call'') then handleToolCall (registry_for h src) req
                  else if m = Some (JStr ''resources/list'') then handleResourcesList req
                  else (case js_template m of
                          None \<Rightarrow> threw (TypeError ''Cannot convert object to primitive value'')
                        | Some s \<Rightarrow> replied [reply_error (- 32601) ''method not implemented'']))
               \<lparr>timers := ts\<rparr>))"

text \<open>
  \<open>handleRequest\<close>, the entry of the socket transport: every reply is sent on the socket
  as a response with the id of the request. \<open>handleHttpRequest\<close>, the entry of the HTTP
  transport, passes the replies to the callback the transport supplies. Both first log
  the method through a template literal.
\<close>

record ws_outcome =
  sent :: "ws_effect list"
  ws_thrown :: "js_error option"
  ws_settles :: bool
  ws_timers :: "nat list"

definition handleRequest :: "McpHandlers \<Rightarrow> sock \<Rightarrow> McpRequest \<Rightarrow> ws_outcome" where
  "handleRequest h k req =
     (case js_template (req_method req) of
        None \<Rightarrow>
          \<lparr>sent = [], ws_thrown = Some (TypeError ''Cannot convert object to primitive value''),
           ws_settles = True, ws_timers = []\<rparr>
      | Some s \<Rightarrow>
          (let d = handleRequestGeneric h req Ws
           in \<lparr>sent = map (\<lambda>msg. Send k (ResponseMessage (make_response (req_id req) msg))) (emitted d),
               ws_thrown = thrown d, ws_settles = settles d, ws_timers = timers d\<rparr>))"

definition handleHttpRequest :: "McpHandlers \<Rightarrow> McpRequest \<Rightarrow> dispatch_outcome" where
  "handleHttpRequest h req =
     (case js_template (req_method req) of
        None \<Rightarrow>
          \<lparr>emitted = [], thrown = Some (TypeError ''Cannot convert object to primitive value''),
           settles = True, timers = []\<rparr>
      | Some s \<Rightarrow> handleRequestGeneric h req Http)"





text \<open>What the registry needs of a handler to end a call in one reply: the handler
  settles, and has by then either replied once, or thrown without a reply, in which
  case the registry replies for it.\<close>

definition replies_or_throws :: "outcome \<Rightarrow> bool" where
  "replies_or_throws out =
     (settles out \<and> length (emitted out) + (if thrown out = None then 0 else 1) = 1)"

text \<open>An outcome with exactly one reply and no error.\<close>

definition once :: "outcome \<Rightarrow> bool" where
  "once out = (length (emitted out) = 1 \<and> thrown out = None)"

section \<open>The orchestrator (mcp/dual-server.ts)\<close>

text \<open>An envelope as a request: reading a member of \<^verbatim>\<open>null\<close> throws, any other value
  gives its members or \<^verbatim>\<open>undefined\<close>.\<close>

definition request_of_json :: "json \<Rightarrow> McpRequest option" where
  "request_of_json j =
     (if j = JNull then None
      else Some \<lparr>req_id = js_get j ''id'', req_method = js_get j ''method'',
                 req_params = js_get j ''params''\<rparr>)"

text \<open>The callbacks the orchestrator gives the two transports.\<close>

definition ws_onMessage :: "McpHandlers \<Rightarrow> sock \<Rightarrow> json \<Rightarrow> ws_effect list" where
  "ws_onMessage h k j = (case request_of_json j of None \<Rightarrow> [] | Some req \<Rightarrow> sent (handleRequest h k req))"

definition dual_http_onMessage :: "McpHandlers \<Rightarrow> json \<Rightarrow> reply_msg list" where
  "dual_http_onMessage h j =
     (case request_of_json j of None \<Rightarrow> [] | Some req \<Rightarrow> emitted (handleHttpRequest h req))"

record DualServerConfig =
  config_app :: App
  workspaceManager :: "WorkspaceManager option"
  httpPort :: "nat option"
  enableWebSocket :: "bool option"
  enableHttp :: "bool option"

record McpDualServer =
  wsServer :: "McpServer option"
  httpServer :: "McpHttpServer option"
  handlers :: McpHandlers
  dual_config :: DualServerConfig

record start_result =
  wsPort :: "nat option"
  result_httpPort :: "nat option"

text \<open>\<open>registerTools\<close>, for one table of definitions and the implementations made for
  it: each pair is checked, then registered in the registries named.\<close>

fun register_pairs ::
  "bool \<Rightarrow> ToolDefinition list \<Rightarrow> ToolImplementation list \<Rightarrow> ToolRegistry \<times> ToolRegistry
     \<Rightarrow> js_error + ToolRegistry \<times> ToolRegistry" where
  "register_pairs both [] is (rw, rh) = Inr (rw, rh)"
| "register_pairs both (d # ds) [] (rw, rh) =
     Inl (Error (''Tool definition and implementation mismatch for '' @ name d))"
| "register_pairs both (d # ds) (i # is) (rw, rh) =
     (if name d \<noteq> impl_name i
      then Inl (Error (''Tool definition and implementation mismatch for '' @ name d))
      else register_pairs both ds is
             (snd (register d i rw), if both then snd (register d i rh) else rh))"

text \<open>
  \<open>registerTools\<close>: the general tools in both registries, the tools of the canvas in
  both when there is a workspace manager, the tools of the IDE in the registry of the
  socket transport only. The constructor makes the two registries, fills them, and
  gives them to the handlers with the application.
\<close>

definition registerTools ::
  "Runtime \<Rightarrow> DualServerConfig \<Rightarrow> ToolRegistry \<times> ToolRegistry
     \<Rightarrow> js_error + ToolRegistry \<times> ToolRegistry" where
  "registerTools rt cfg regs =
     (let a = config_app cfg; wm = workspaceManager cfg
      in case register_pairs True GENERAL_TOOL_DEFINITIONS (GeneralTools_createImplementations a rt) regs of
           Inl e \<Rightarrow> Inl e
         | Inr regs1 \<Rightarrow>
             (case (if wm \<noteq> None
                    then register_pairs True CANVAS_TOOL_DEFINITIONS
                           (CanvasTools_createImplementations rt wm) regs1
                    else Inr regs1) of
                Inl e \<Rightarrow> Inl e
              | Inr regs2 \<Rightarrow>
                  register_pairs False IDE_TOOL_DEFINITIONS (IdeTools_createImplementations a rt wm) regs2))"

definition new_McpDualServer :: "Runtime \<Rightarrow> DualServerConfig \<Rightarrow> js_error + McpDualServer" where
  "new_McpDualServer rt cfg =
     (case registerTools rt cfg (new_ToolRegistry, new_ToolRegistry) of
        Inl e \<Rightarrow> Inl e
      | Inr (rw, rh) \<Rightarrow>
          Inr \<lparr>wsServer = None, httpServer = None,
               handlers = \<lparr>app = config_app cfg, wsToolRegistry = rw, httpToolRegistry = rh\<rparr>,
               dual_config = cfg\<rparr>)"

text \<open>\<^verbatim>\<open>this.config.httpPort || 22360\<close>\<close>

definition port_or_default :: "nat option \<Rightarrow> nat" where
  "port_or_default p = (case p of None \<Rightarrow> 22360 | Some q \<Rightarrow> if q = 0 then 22360 else q)"

definition is_port_error :: "js_error \<Rightarrow> bool" where
  "is_port_error e =
     (err_name e = ''PortInUseError'' \<or> err_name e = ''PermissionError'' \<or>
      str_includes (err_message e) ''EADDRINUSE'' \<or> str_includes (err_message e) ''EACCES'')"

text \<open>
  The other variant of the HTTP transport in the repository renames the errors of
  \<^verbatim>\<open>listen\<close> before it rejects with them; \<open>is_port_error\<close> tests for both forms.
\<close>

definition enhance_listen_error :: "nat \<Rightarrow> js_error \<Rightarrow> js_error" where
  "enhance_listen_error p e =
     (if err_code e = Some ''EADDRINUSE'' then
        \<lparr>err_name = ''PortInUseError'',
         err_message = ''Port '' @ string_of_nat p @ '' is already in use. Please choose a different port.'',
         err_code = Some ''EADDRINUSE''\<rparr>
      else if err_code e = Some ''EACCES'' then
        \<lparr>err_name = ''PermissionError'',
         err_message = ''Permission denied for port '' @ string_of_nat p @ ''. Try using a port above 1024.'',
         err_code = Some ''EACCES''\<rparr>
      else e)"

text \<open>The first half of \<open>start\<close>: the socket transport. Whatever is thrown inside is
  caught and logged.\<close>

definition start_ws ::
  "(WebSocketServerOptions \<Rightarrow> js_error + nat) \<Rightarrow> McpDualServer \<Rightarrow> world
     \<Rightarrow> start_result \<times> McpDualServer \<times> world" where
  "start_ws ws_listen d w =
     (let empty = \<lparr>wsPort = None, result_httpPort = None\<rparr>
      in if enableWebSocket (dual_config d) = Some False then (empty, d, w)
         else
           (let wsConfig = \<lparr>onMessage = ws_onMessage (handlers d),
                            onConnection = Some (\<lambda>k. []), onDisconnection = Some (\<lambda>k. [])\<rparr>;
                (r, s1, w1) = McpServer_start ws_listen (new_McpServer wsConfig) w;
                d1 = d\<lparr>wsServer := Some s1\<rparr>
            in case r of
                 Inl e \<Rightarrow> (empty, d1, w1)
               | Inr p \<Rightarrow>
                   (let res = empty\<lparr>wsPort := Some p\<rparr>
                    in if workspaceManager (dual_config d) \<noteq> None then
                         (case adapter_getBasePath (app (handlers d)) of
                            Inl e \<Rightarrow> (res, d1, w1)
                          | Inr bp \<Rightarrow>
                              (let basePath = (case bp of None \<Rightarrow> cwd (app (handlers d))
                                               | Some b \<Rightarrow> if b = [] then cwd (app (handlers d)) else b)
                               in (res, d1, snd (updateWorkspaceFolders s1 w1 basePath))))
                       else (res, d1, w1))))"

text \<open>\<open>start\<close>: the value the promise resolves to, or the error it rejects with; the
  orchestrator and the file system it leaves.\<close>

definition McpDualServer_start ::
  "(WebSocketServerOptions \<Rightarrow> js_error + nat) \<Rightarrow> (nat \<Rightarrow> string \<Rightarrow> js_error + nat)
     \<Rightarrow> McpDualServer \<Rightarrow> world \<Rightarrow> (js_error + start_result) \<times> McpDualServer \<times> world" where
  "McpDualServer_start ws_listen http_listen d w =
     (let (res, d1, w1) = start_ws ws_listen d w
      in if enableHttp (dual_config d) = Some False then (Inr res, d1, w1)
         else
           (let httpConfig = \<lparr>http_onMessage = dual_http_onMessage (handlers d)\<rparr>;
                p = port_or_default (httpPort (dual_config d));
                (r, h1) = McpHttpServer_start http_listen (new_McpHttpServer httpConfig) p;
                d2 = d1\<lparr>httpServer := Some h1\<rparr>
            in case r of
                 Inl e \<Rightarrow> (if is_port_error e then (Inl e, d2, w1) else (Inr res, d2, w1))
               | Inr q \<Rightarrow> (Inr (res\<lparr>result_httpPort := Some q\<rparr>), d2, w1)))"

definition McpDualServer_stop :: "McpDualServer \<Rightarrow> world \<Rightarrow> McpDualServer \<times> world" where
  "McpDualServer_stop d w =
     (d\<lparr>wsServer := None, httpServer := None\<rparr>,
      case wsServer d of None \<Rightarrow> w | Some s \<Rightarrow> snd (McpServer_stop s w))"

section \<open>Concrete inputs\<close>

text \<open>Values at which the properties below are exercised.\<close>

definition view_definition :: ToolDefinition where
  "view_definition =
     \<lparr>name = ''view'', description = ''View a file'', inputSchema = JObj [], category = ''file''\<rparr>"

definition edit_implementation :: ToolImplementation where
  "edit_implementation = \<lparr>impl_name = ''edit'', handler = (\<lambda>args. replied [reply_result JNull])\<rparr>"

definition view_implementation :: ToolImplementation where
  "view_implementation =
     \<lparr>impl_name = ''view'', handler = (\<lambda>args. replied [reply_result (JStr ''v1'')])\<rparr>"

definition view_implementation2 :: ToolImplementation where
  "view_implementation2 =
     \<lparr>impl_name = ''view'', handler = (\<lambda>args. replied [reply_result (JStr ''v2'')])\<rparr>"

text \<open>Three envelopes, and a parser that knows their texts and rejects every other
  text.\<close>

definition ping_request :: json where
  "ping_request = JObj [(''jsonrpc'', JStr ''2.0''), (''id'', JNum 1), (''method'', JStr ''ping'')]"

definition initialized_notification :: json where
  "initialized_notification =
     JObj [(''jsonrpc'', JStr ''2.0''), (''method'', JStr ''notifications/initialized'')]"

definition ping_text :: string where
  \<open>ping_text = ''{"jsonrpc":"2.0","id":1,"method":"ping"}''\<close>

definition initialized_text :: string where
  \<open>initialized_text = ''{"jsonrpc":"2.0","method":"notifications/initialized"}''\<close>

definition mixed_text :: string where
  "mixed_text = ''['' @ ping_text @ '','' @ initialized_text @ '']''"

definition sample_parse :: "string \<Rightarrow> json option" where
  "sample_parse raw =
     (if raw = ping_text then Some ping_request
      else if raw = initialized_text then Some initialized_notification
      else if raw = mixed_text then Some (JArr [ping_request, initialized_notification])
      else None)"

text \<open>A process with the override variable set, and a library that binds the socket
  transport to port 51234.\<close>

definition sample_world :: world where
  "sample_world =
     \<lparr>env = [''HOME'' \<mapsto> ''/home/u'', ''CLAUDE_CONFIG_DIR'' \<mapsto> ''/custom''],
      homedir = ''/home/u'', win32 = False, pid = 4242, files = Map.empty,
      dirs = {''/home'', ''/home/u'', ''/custom''}\<rparr>"

definition sample_ws_listen :: "WebSocketServerOptions \<Rightarrow> js_error + nat" where
  "sample_ws_listen opts = Inr 51234"

definition silent_config :: McpServerConfig where
  "silent_config = \<lparr>onMessage = (\<lambda>k j. []), onConnection = None, onDisconnection = None\<rparr>"

text \<open>An HTTP transport whose handler answers every envelope once, after one stream
  was opened on it, and after that stream was closed again.\<close>

definition pong_config :: McpHttpServerConfig where
  "pong_config = \<lparr>http_onMessage = (\<lambda>j. [reply_result (JStr ''pong'')])\<rparr>"

definition sample_stream :: SSEStream where
  "sample_stream = \<lparr>response = 1, sessionId = ''s1'', lastEventId = None\<rparr>"

definition http_open :: McpHttpServer where
  "http_open =
     snd (snd (handleSSEConnection (\<lambda>r. False) (new_McpHttpServer pong_config)
                 (Some ''text/event-stream'') 1 ''s1'' 1000 None))"

definition http_closed :: McpHttpServer where
  "http_closed = on_stream_close http_open sample_stream"

text \<open>A host application with one file, the handlers of an orchestrator whose two
  registries hold the tool \<open>view\<close>, and three requests: a ping, the connection
  announcement of the IDE sent with an id, and a tool call whose name is an object
  with a member \<^verbatim>\<open>toString\<close>. The application runs the function body
  \<^verbatim>\<open>return new Promise(() => {})\<close> as JavaScript does: the promise it returns never
  settles.\<close>

definition idle_body :: string where
  "idle_body = ''return new Promise(() => {})''"

definition sample_app :: App where
  "sample_app =
     \<lparr>adapter_read = (\<lambda>p. if p = ''note.md'' then Inr ''hello'' else Inl (Error ''File not found'')),
      adapter_write = (\<lambda>p c. None),
      vault_getFiles = Inr [''note.md''],
      workspace_getActiveFile = Inr (Some ''note.md''),
      vault_getName = Inr ''vault'',
      adapter_getBasePath = Inr (Some ''/home/u/vault''),
      new_RegExp = (\<lambda>pat. Inr (\<lambda>p. str_includes p pat)),
      run_function = (\<lambda>body. if body = idle_body then Never else Returned ''undefined''),
      cwd = ''/home/u''\<rparr>"


definition sample_manager :: WorkspaceManager where
  "sample_manager =
     \<lparr>getCanvasState = Inr \<lparr>state_activeFile = Some (''note.md'', ''md''), state_canvasData = None\<rparr>,
      getCanvasStateManager =
        Inr \<lparr>getSelectedNodes = Inr [], getSelectedEdges = Inr [], getNodeRelations = (\<lambda>i. Inr None)\<rparr>,
      canvas_report = (\<lambda>site args. Inr ''{}''),
      canvas_diagnostics = Inr (JObj [(''isActive'', JBool True)])\<rparr>"

definition sample_registry :: ToolRegistry where
  "sample_registry = snd (register view_definition view_implementation new_ToolRegistry)"

definition sample_handlers :: McpHandlers where
  "sample_handlers =
     \<lparr>app = sample_app, wsToolRegistry = sample_registry, httpToolRegistry = sample_registry\<rparr>"

definition ping_call :: McpRequest where
  "ping_call = \<lparr>req_id = Some (JNum 1), req_method = Some (JStr ''ping''), req_params = None\<rparr>"


definition shadowed_name_call :: McpRequest where
  "shadowed_name_call =
     \<lparr>req_id = Some (JNum 3), req_method = Some (JStr ''tools/call''),
      req_params = Some (JObj [(''name'', JObj [(''toString'', JNull)])])\<rparr>"

definition unknown_tool_call :: McpRequest where
  "unknown_tool_call =
     \<lparr>req_id = Some (JNum 4), req_method = Some (JStr ''tools/call''),
      req_params = Some (JObj [(''name'', JStr ''nope'')])\<rparr>"

text \<open>An orchestrator with both transports enabled, and a system on which the HTTP
  port is taken: \<^verbatim>\<open>listen\<close> fails with the error Node reports for an address in use.\<close>

definition address_in_use :: js_error where
  "address_in_use =
     \<lparr>err_name = ''Error'',
      err_message = ''listen EADDRINUSE: address already in use 127.0.0.1:22360'',
      err_code = Some ''EADDRINUSE''\<rparr>"

definition busy_http_listen :: "nat \<Rightarrow> string \<Rightarrow> js_error + nat" where
  "busy_http_listen p host = Inl address_in_use"

definition sample_dual :: McpDualServer where
  "sample_dual =
     \<lparr>wsServer = None, httpServer = None, handlers = sample_handlers,
      dual_config = \<lparr>config_app = sample_app, workspaceManager = Some sample_manager,
                     httpPort = Some 22360,
                     enableWebSocket = Some True, enableHttp = Some True\<rparr>\<rparr>"




section \<open>Properties of the tool registry\<close>

lemma update_twice: "AList.update k v (AList.update k u al) = AList.update k v al"
  by (induction al) auto

lemma register_keeps_distinct:
  "distinct (getRegisteredToolNames r) \<Longrightarrow> distinct (getRegisteredToolNames (snd (register d i r)))"
  by (simp add: register_def getRegisteredToolNames_def distinct_update)

lemma register_all_keeps_distinct:
  "distinct (getRegisteredToolNames r) \<Longrightarrow> distinct (getRegisteredToolNames (register_all cs r))"
proof (induction cs arbitrary: r)
  case Nil
  then show ?case by simp
next
  case (Cons c cs)
  obtain d i where c: "c = (d, i)" by (cases c)
  from Cons.prems have "distinct (getRegisteredToolNames (snd (register d i r)))"
    by (rule register_keeps_distinct)
  then show ?case using Cons.IH c by simp
qed

text \<open>
  C7. When the names of the definition and of the implementation differ, \<open>register\<close>
  throws, and the registry is left exactly as it was: the pair is not in the table, and
  every lookup and every tool call answers as before the failed call.
\<close>

theorem register_mismatch_throws:
  assumes "name d \<noteq> impl_name i"
  shows "fst (register d i r) = Some (Error (mismatch_message (name d) (impl_name i)))
       \<and> snd (register d i r) = r
       \<and> tools_get (snd (register d i r)) k = tools_get r k
       \<and> handleToolCall (snd (register d i r)) req = handleToolCall r req"
  using assms by (simp add: register_def)

theorem register_mismatch_throws_witness:
  "name view_definition \<noteq> impl_name edit_implementation
   \<and> fst (register view_definition edit_implementation new_ToolRegistry) \<noteq> None
   \<and> snd (register view_definition edit_implementation new_ToolRegistry) = new_ToolRegistry
   \<and> tools_get (snd (register view_definition edit_implementation new_ToolRegistry))
        (Some (JStr ''view'')) = None"
proof -
  have h: "name view_definition \<noteq> impl_name edit_implementation"
    by (simp add: view_definition_def edit_implementation_def)
  show ?thesis
    using h register_mismatch_throws [OF h, of new_ToolRegistry "Some (JStr ''view'')"]
    by (simp add: tools_get_def new_ToolRegistry_def)
qed

text \<open>
  C10. Registering a second pair under a name already registered succeeds and replaces
  the first: \<open>register d1 i1\<close> followed by \<open>register d2 i2\<close>, with the same name, leaves
  the registry \<open>register d2 i2\<close> alone leaves, the name then resolves to the second pair,
  and the names of a registry built by any run of \<open>register\<close> calls are distinct.
\<close>

theorem register_last_write_wins:
  assumes "name d1 = name d2" and "impl_name i2 = name d2"
  shows "fst (register d2 i2 (snd (register d1 i1 r))) = None
       \<and> register d2 i2 (snd (register d1 i1 r)) = register d2 i2 r
       \<and> tools_get (snd (register d2 i2 (snd (register d1 i1 r)))) (Some (JStr (name d2)))
           = Some \<lparr>tool_definition = d2, tool_implementation = i2\<rparr>
       \<and> distinct (getRegisteredToolNames (register_all cs new_ToolRegistry))"
proof -
  have "distinct (getRegisteredToolNames new_ToolRegistry)"
    by (simp add: getRegisteredToolNames_def new_ToolRegistry_def)
  then have "distinct (getRegisteredToolNames (register_all cs new_ToolRegistry))"
    by (rule register_all_keeps_distinct)
  moreover have "register d2 i2 (snd (register d1 i1 r)) = register d2 i2 r"
    using assms by (simp add: register_def update_twice)
  moreover have "fst (register d2 i2 r) = None"
    using assms by (simp add: register_def)
  moreover have "tools_get (snd (register d2 i2 r)) (Some (JStr (name d2)))
           = Some \<lparr>tool_definition = d2, tool_implementation = i2\<rparr>"
    using assms by (simp add: register_def tools_get_def update_conv')
  ultimately show ?thesis by simp
qed

theorem register_last_write_wins_witness:
  "name view_definition = name view_definition
   \<and> impl_name view_implementation2 = name view_definition
   \<and> getRegisteredToolNames
        (snd (register view_definition view_implementation2
               (snd (register view_definition view_implementation new_ToolRegistry)))) = [''view'']
   \<and> map_option tool_implementation
        (tools_get (snd (register view_definition view_implementation2
               (snd (register view_definition view_implementation new_ToolRegistry))))
           (Some (JStr ''view'')))
      = Some view_implementation2
   \<and> distinct (getRegisteredToolNames
        (register_all [(view_definition, view_implementation), (view_definition, view_implementation2)]
           new_ToolRegistry))"
proof -
  have h: "impl_name view_implementation2 = name view_definition"
    by (simp add: view_definition_def view_implementation2_def)
  have n: "name view_definition = ''view''" by (simp add: view_definition_def)
  show ?thesis
    using h n register_last_write_wins [OF refl h, of view_implementation new_ToolRegistry
        "[(view_definition, view_implementation), (view_definition, view_implementation2)]"]
    by (simp add: register_def getRegisteredToolNames_def new_ToolRegistry_def)
qed


section \<open>Properties of the socket transport\<close>

lemma McpServer_start_bound:
  assumes "listen \<lparr>opt_port = 0, opt_host = None\<rparr> = Inr p"
  shows "fst (McpServer_start listen s w) = Inr p"
    and "wss (fst (snd (McpServer_start listen s w)))
           = Some \<lparr>options = \<lparr>opt_port = 0, opt_host = None\<rparr>, address_port = p, closed = False\<rparr>"
    and "connectedClients (fst (snd (McpServer_start listen s w))) = connectedClients s"
    and "lockFilePath (fst (snd (McpServer_start listen s w))) = lockFilePath (fst (createLockFile p s w))"
    and "files (snd (snd (McpServer_start listen s w))) = files (snd (createLockFile p s w))"
  using assms by (simp_all add: McpServer_start_def Let_def case_prod_beta createLockFile_def)

text \<open>
  C6. The socket transport asks the library for port 0, so the system assigns the port,
  and it names no host: the options of the server it creates hold no listening address,
  and the library then listens on every interface, not on loopback alone.
\<close>

theorem socket_listener_has_no_host:
  "fst (McpServer_start listen s w) = listen \<lparr>opt_port = 0, opt_host = None\<rparr>
   \<and> map_option options (wss (fst (snd (McpServer_start sample_ws_listen s w))))
       = Some \<lparr>opt_port = 0, opt_host = None\<rparr>
   \<and> \<not> loopback_only \<lparr>opt_port = 0, opt_host = None\<rparr>"
proof -
  have "fst (McpServer_start listen s w) = listen \<lparr>opt_port = 0, opt_host = None\<rparr>"
    by (cases "listen \<lparr>opt_port = 0, opt_host = None\<rparr>")
       (simp_all add: McpServer_start_def Let_def case_prod_beta)
  moreover have "sample_ws_listen \<lparr>opt_port = 0, opt_host = None\<rparr> = Inr 51234"
    by (simp add: sample_ws_listen_def)
  ultimately show ?thesis by (simp add: McpServer_start_bound(2) loopback_only_def)
qed

text \<open>
  C9. A frame whose text is not valid JSON causes nothing: no message is sent on any
  socket, no socket is closed, and the server, with its collection of connected clients,
  is as before.
\<close>

theorem malformed_frame_dropped:
  assumes "parse raw = None"
  shows "handleMessage parse s k raw = ([], s)"
  using assms by (simp add: handleMessage_def)

theorem malformed_frame_dropped_witness:
  "sample_parse ''{not json'' = None
   \<and> fst (handleMessage sample_parse (new_McpServer silent_config\<lparr>connectedClients := [7]\<rparr>) 7 ''{not json'') = []
   \<and> connectedClients (snd (handleMessage sample_parse (new_McpServer silent_config\<lparr>connectedClients := [7]\<rparr>) 7 ''{not json'')) = [7]"
proof -
  have h: "sample_parse ''{not json'' = None"
    by (simp add: sample_parse_def ping_text_def initialized_text_def mixed_text_def)
  show ?thesis
    using h malformed_frame_dropped [of sample_parse "''{not json''"
        "new_McpServer silent_config\<lparr>connectedClients := [7]\<rparr>" 7]
    by simp
qed

lemma sample_port_text: "string_of_nat 51234 = ''51234''"
  by (simp add: string_of_nat.simps digit_char_def)

lemma sample_lock_path:
  "lockFilePath (fst (createLockFile 51234 s sample_world)) = ''/home/u/.claude/ide/51234.lock''"
  by (simp add: createLockFile_def sample_world_def path_join_def path_normalize_def env_or_def env_set_def
      is_separator_def Let_def sample_port_text)

lemma sample_lock_files:
  "files (snd (createLockFile 51234 s sample_world))
     = [''/home/u/.claude/ide/51234.lock'' \<mapsto> lock_record 4242 []]"
  by (simp add: createLockFile_def sample_world_def path_join_def path_normalize_def env_or_def env_set_def
      is_separator_def Let_def sample_port_text mkdirSync_recursive_def writeFileSync_def)

lemma sample_ide_dir: "getClaudeIdeDir sample_world = ''/custom/ide''"
  by (simp add: getClaudeIdeDir_def getClaudeConfigDir_def sample_world_def path_join_def path_normalize_def env_or_def env_set_def
      is_separator_def Let_def)

lemma sample_claimed_path:
  "path_join False [''/custom/ide'', ''51234.lock''] = ''/custom/ide/51234.lock''"
  by (simp add: path_join_def path_normalize_def is_separator_def Let_def)

text \<open>The order in which the configuration directory is resolved, and the place at
  which \<open>createLockFile\<close> writes the record, whatever that directory is.\<close>

lemma getClaudeConfigDir_override:
  "env_set w ''CLAUDE_CONFIG_DIR'' \<Longrightarrow> getClaudeConfigDir w = the (env w ''CLAUDE_CONFIG_DIR'')"
  by (simp add: getClaudeConfigDir_def)

lemma getClaudeConfigDir_posix:
  assumes "\<not> env_set w ''CLAUDE_CONFIG_DIR''" and "\<not> win32 w"
  shows "getClaudeConfigDir w =
     (let modern = path_join False
                     [env_or w ''XDG_CONFIG_HOME'' (path_join False [homedir w, ''.config'']), ''claude''];
          legacy = path_join False [homedir w, ''.claude'']
      in if existsSync w modern then modern
         else if existsSync w legacy then legacy
         else modern)"
  using assms by (simp add: getClaudeConfigDir_def Let_def)

lemma ancestors_holds_path: "rev pre @ cs \<in> set (ancestors win pre cs)"
proof (induction cs arbitrary: pre)
  case Nil
  then show ?case by simp
next
  case (Cons a cs)
  have "rev (a # pre) @ cs \<in> set (ancestors win (a # pre) cs)" by (rule Cons.IH)
  then show ?case by simp
qed

lemma createLockFile_place:
  "lockFilePath (fst (createLockFile p s w))
     = path_join (win32 w)
         [path_join (win32 w) [env_or w ''HOME'' (env_or w ''USERPROFILE'' ''.''), ''.claude'', ''ide''],
          string_of_nat p @ ''.lock'']"
  and "files (snd (createLockFile p s w)) (lockFilePath (fst (createLockFile p s w)))
     = Some (lock_record (pid w) [])"
  and "path_join (win32 w) [env_or w ''HOME'' (env_or w ''USERPROFILE'' ''.''), ''.claude'', ''ide'']
     \<in> dirs (snd (createLockFile p s w))"
  using ancestors_holds_path [of "[]" _ "win32 w"]
  by (simp_all add: createLockFile_def Let_def mkdirSync_recursive_def writeFileSync_def)

text \<open>
  C5. With the override variable set to \<^verbatim>\<open>/custom\<close> the configuration directory resolves
  to it, and the discovery record of port 51234 belongs at
  \<^verbatim>\<open>/custom/ide/51234.lock\<close>. The socket transport does not resolve the configuration
  directory: it writes the record under the home directory, at
  \<^verbatim>\<open>/home/u/.claude/ide/51234.lock\<close>, and nothing at the resolved place.
\<close>

theorem lock_file_ignores_config_dir:
  "path_join (win32 sample_world) [getClaudeIdeDir sample_world, string_of_nat 51234 @ ''.lock'']
     = ''/custom/ide/51234.lock''
   \<and> lockFilePath (fst (snd (McpServer_start sample_ws_listen s sample_world)))
       = ''/home/u/.claude/ide/51234.lock''
   \<and> files (snd (snd (McpServer_start sample_ws_listen s sample_world))) ''/custom/ide/51234.lock'' = None
   \<and> files (snd (snd (McpServer_start sample_ws_listen s sample_world))) ''/home/u/.claude/ide/51234.lock''
       = Some (lock_record 4242 [])"
proof -
  have l: "sample_ws_listen \<lparr>opt_port = 0, opt_host = None\<rparr> = Inr 51234"
    by (simp add: sample_ws_listen_def)
  have w: "win32 sample_world = False" by (simp add: sample_world_def)
  show ?thesis
    using McpServer_start_bound(4,5) [of sample_ws_listen 51234 s sample_world] l
    by (simp add: sample_lock_path sample_lock_files sample_ide_dir sample_claimed_path sample_port_text w)
qed



section \<open>Properties of the streaming HTTP transport\<close>

lemma closed_session_not_found:
  "handleMessages parse destroyed (on_stream_close s stream) (Some (sessionId stream)) body
     = (respond 404 (error_body ''Session not found''), on_stream_close s stream)"
  by (simp add: handleMessages_def on_stream_close_def delete_conv')

lemma unknown_session_not_found:
  assumes "map_of (sessions s) sid = None"
  shows "handleMessages parse destroyed s (Some sid) body
     = (respond 404 (error_body ''Session not found''), s)"
  using assms by (simp add: handleMessages_def)

lemma http_open_eq:
  "http_open = (new_McpHttpServer pong_config)
      \<lparr>sessions := [(''s1'', \<lparr>session_id = ''s1'', createdAt = 1000, streams = [1]\<rparr>)],
       activeStreams := [sample_stream]\<rparr>"
  by (simp add: http_open_def handleSSEConnection_def Let_def new_McpHttpServer_def set_add_def
      sample_stream_def)

lemma http_closed_eq: "http_closed = new_McpHttpServer pong_config"
  by (simp add: http_closed_def http_open_eq on_stream_close_def set_delete_def new_McpHttpServer_def
      sample_stream_def)

lemma post_messages_is_routed:
  assumes "http_method req = ''POST''" and "pathname req = ''/messages''"
  shows "McpHttpServer_handleRequest parse destroyed s req res uuid now
     = (Submitted (fst (handleMessages parse destroyed s (query_session_id req) (request_body req))),
        snd (handleMessages parse destroyed s (query_session_id req) (request_body req)))"
  using assms by (simp add: McpHttpServer_handleRequest_def case_prod_beta)

text \<open>
  C3 (as amended). A POST whose \<^verbatim>\<open>session_id\<close> names a session that has closed is answered
  as one whose \<^verbatim>\<open>session_id\<close> never existed: closing removes the session from the table,
  and an identifier not in the table gets status 404 with the body
  \<^verbatim>\<open>{"error":"Session not found"}\<close>. In both cases nothing is handed to the handler,
  nothing is written to a stream, and the server, with all its other sessions, is
  unchanged.
\<close>

theorem stale_session_gets_404:
  "handleMessages parse destroyed (on_stream_close s stream) (Some (sessionId stream)) body
     = (respond 404 (error_body ''Session not found''), on_stream_close s stream)
   \<and> (map_of (sessions s) sid = None \<longrightarrow>
        handleMessages parse destroyed s (Some sid) body
          = (respond 404 (error_body ''Session not found''), s))"
  by (simp add: closed_session_not_found unknown_session_not_found)

theorem stale_session_gets_404_witness:
  "map_of (sessions http_open) ''s1'' \<noteq> None
   \<and> map_of (sessions http_open) ''never'' = None
   \<and> post_status (fst (handleMessages sample_parse (\<lambda>r. False) (on_stream_close http_open sample_stream)
                         (Some ''s1'') ping_text)) = Some 404
   \<and> handleMessages sample_parse (\<lambda>r. False) http_open (Some ''never'') ping_text
       = (respond 404 (error_body ''Session not found''), http_open)"
proof -
  have a: "map_of (sessions http_open) ''s1'' \<noteq> None" by (simp add: http_open_eq)
  have b: "map_of (sessions http_open) ''never'' = None" by (simp add: http_open_eq)
  have c: "sessionId sample_stream = ''s1''" by (simp add: sample_stream_def)
  show ?thesis
    using a b c stale_session_gets_404 [of sample_parse "\<lambda>r. False" http_open sample_stream ping_text "''never''"]
    by (simp add: respond_def)
qed

text \<open>The claim as stated, with 410 for a closed session, fails: the session \<open>s1\<close> was
  opened and closed, and a POST naming it gets 404.\<close>

theorem closed_session_status_is_not_410:
  "map_of (sessions http_open) ''s1'' \<noteq> None
   \<and> http_closed = on_stream_close http_open sample_stream
   \<and> post_status (fst (handleMessages sample_parse (\<lambda>r. False) http_closed (Some ''s1'') ping_text)) = Some 404
   \<and> post_status (fst (handleMessages sample_parse (\<lambda>r. False) http_closed (Some ''s1'') ping_text)) \<noteq> Some 410"
proof -
  have a: "map_of (sessions http_open) ''s1'' \<noteq> None" by (simp add: http_open_eq)
  have c: "sessionId sample_stream = ''s1''" by (simp add: sample_stream_def)
  show ?thesis
    using a c closed_session_not_found [of sample_parse "\<lambda>r. False" http_open sample_stream ping_text]
    by (simp add: http_closed_def respond_def)
qed

lemma parse_mixed: "sample_parse mixed_text = Some (JArr [ping_request, initialized_notification])"
  by (simp add: sample_parse_def mixed_text_def ping_text_def initialized_text_def)

lemma parse_initialized: "sample_parse initialized_text = Some initialized_notification"
  by (simp add: sample_parse_def mixed_text_def ping_text_def initialized_text_def)

lemma notifications_alone:
  assumes "map_of (sessions s) sid = Some sess" "sid \<noteq> []" "parse body = Some parsed"
    and "has_requests (case parsed of JArr xs \<Rightarrow> xs | _ \<Rightarrow> [parsed]) = Inr False"
  shows "handleMessages parse destroyed s (Some sid) body
     = ((respond 202 None)
          \<lparr>dispatched := map (\<lambda>m. (m, False))
             (filter (\<lambda>m. js_truthy (js_get m ''method'')) (case parsed of JArr xs \<Rightarrow> xs | _ \<Rightarrow> [parsed]))\<rparr>, s)"
  using assms by (simp add: handleMessages_def Let_def)

text \<open>In a submission that holds a request, only envelopes with an id are handed to
  the handler; a request submitted alone is answered 202, and its reply goes to the
  stream of the session as one \<^verbatim>\<open>message\<close> event with the id of the request.\<close>

lemma process_requests_only_requests:
  "(m, b) \<in> set (dispatched (fst (process_requests f destroyed res c ms)))
     \<Longrightarrow> js_get m ''id'' \<noteq> None \<and> js_truthy (js_get m ''method'') \<and> b"
proof (induction ms arbitrary: c)
  case Nil
  then show ?case by (simp add: respond_def)
next
  case (Cons x xs)
  show ?case
  proof (cases "x \<noteq> JNull \<and> js_truthy (js_get x ''method'') \<and> js_get x ''id'' \<noteq> None")
    case True
    then have "(m, b) = (x, True) \<or>
        (m, b) \<in> set (dispatched (fst (process_requests f destroyed res
                        (snd (reply_events destroyed res (js_get x ''id'') c (f x))) xs)))"
      using Cons.prems by (auto simp add: case_prod_beta Let_def)
    then show ?thesis using True Cons.IH by auto
  next
    case False
    then show ?thesis using Cons.prems Cons.IH by (auto simp add: case_prod_beta split: if_splits)
  qed
qed

lemma single_request_event:
  assumes "map_of (sessions s) sid = Some sess" and "sid \<noteq> []"
    and "parse body = Some (JObj kvs)"
    and "map_of kvs ''id'' = Some i" and "map_of kvs ''method'' = Some (JStr m)" and "m \<noteq> []"
    and "find (\<lambda>st. sessionId st = sid) (activeStreams s) = Some stream"
    and "http_onMessage (http_config s) (JObj kvs) = [msg]"
  shows "handleMessages parse destroyed s (Some sid) body
     = (\<lparr>post_status = Some 202, post_body = None, dispatched = [(JObj kvs, True)],
         post_events = sendSSEMessage destroyed (response stream) ''message''
                         (ResponseData (make_response (Some i) msg))
                         (Some (string_of_nat (Suc (eventIdCounter s)))),
         post_thrown = None\<rparr>,
        s\<lparr>eventIdCounter := Suc (eventIdCounter s)\<rparr>)"
  using assms
  by (simp add: handleMessages_def Let_def respond_def)

text \<open>
  C4. A notification submitted alone is handed to the handler with the empty reply. The
  same notification submitted in one body with a request is not: the loop over a body
  that holds a request hands over only the envelopes with both an id and a method, and
  the notification is dropped unprocessed, the POST still being answered 202.
\<close>

theorem mixed_submission_drops_notification:
  "dispatched (fst (handleMessages sample_parse (\<lambda>r. False) http_open (Some ''s1'') initialized_text))
     = [(initialized_notification, False)]
   \<and> dispatched (fst (handleMessages sample_parse (\<lambda>r. False) http_open (Some ''s1'') mixed_text))
     = [(ping_request, True)]
   \<and> post_status (fst (handleMessages sample_parse (\<lambda>r. False) http_open (Some ''s1'') mixed_text))
     = Some 202"
  by (simp add: handleMessages_def parse_mixed parse_initialized http_open_eq Let_def
      ping_request_def initialized_notification_def new_McpHttpServer_def sample_stream_def
      respond_def pong_config_def sendSSEMessage_def case_prod_beta)



section \<open>Properties of tool calls and of the dispatcher\<close>

lemma unregistered_tool_reply:
  assumes "tools_get r (js_get (or_empty_object (req_params req)) ''name'') = None"
    and "js_template (js_get (or_empty_object (req_params req)) ''name'') = Some s"
  shows "handleToolCall r req = replied [reply_result (text_content (not_registered_text s))]"
  using assms by (simp add: handleToolCall_def Let_def)

lemma unregistered_string_name_reply:
  assumes "js_get (or_empty_object (req_params req)) ''name'' = Some (JStr s)"
    and "map_of (tools r) s = None"
  shows "handleToolCall r req = replied [reply_result (text_content (not_registered_text s))]"
  using assms by (simp add: unregistered_tool_reply tools_get_def js_template_def)

lemma shadowed_name:
  "js_get (or_empty_object (req_params shadowed_name_call)) ''name'' = Some (JObj [(''toString'', JNull)])"
  by (simp add: shadowed_name_call_def or_empty_object_def)

lemma shadowed_name_throws:
  "handleToolCall r shadowed_name_call = threw (TypeError ''Cannot convert object to primitive value'')"
  by (simp add: handleToolCall_def Let_def shadowed_name tools_get_def js_template_def)

lemma shadowed_name_dispatch:
  "handleRequestGeneric h shadowed_name_call src
     = \<lparr>emitted = [], thrown = Some (TypeError ''Cannot convert object to primitive value''),
        settles = True, timers = []\<rparr>"
  by (simp add: handleRequestGeneric_def Let_def isIdeMethod_def shadowed_name_throws dispatched_as_def threw_def)
     (simp add: shadowed_name_call_def)

text \<open>
  C8. A call of a tool whose name is no key of the registry is answered in band, with a
  result whose content is the text \<^verbatim>\<open>Tool '<name>' is not registered\<close>, whenever the
  name can be rendered in that text (\<open>unregistered_tool_reply\<close>; every string can, and
  so can an absent name). A name that cannot be rendered, an object with a member
  \<^verbatim>\<open>toString\<close>, is no key of any registry either, and for it the answer is never
  given: the template literal of the log line throws, the call rejects, and neither
  transport sends anything.
\<close>

theorem unrenderable_name_gets_no_reply:
  "tools_get r (js_get (or_empty_object (req_params shadowed_name_call)) ''name'') = None
   \<and> handleToolCall r shadowed_name_call = threw (TypeError ''Cannot convert object to primitive value'')
   \<and> sent (handleRequest h k shadowed_name_call) = []
   \<and> emitted (handleHttpRequest h shadowed_name_call) = []"
proof -
  have m: "js_template (req_method shadowed_name_call) = Some ''tools/call''"
    by (simp add: shadowed_name_call_def js_template_def)
  show ?thesis
    by (simp add: shadowed_name tools_get_def shadowed_name_throws handleRequest_def handleHttpRequest_def
        m shadowed_name_dispatch)
qed




subsection \<open>Every registered handler replies once, or throws before it replies\<close>

text \<open>Each handler the orchestrator registers settles with one reply, or with an
  exception and no reply; the only one that may not settle is \<^verbatim>\<open>obsidian_api\<close>, and only
  when the function body it is given never settles.\<close>

lemma rot_text [simp]: "replies_or_throws (text_reply t)"
  by (simp add: replies_or_throws_def text_reply_def replied_def)

lemma rot_error [simp]: "replies_or_throws (error_reply c m)"
  by (simp add: replies_or_throws_def error_reply_def replied_def)

lemma rot_replied [simp]: "replies_or_throws (replied [m])"
  by (simp add: replies_or_throws_def replied_def)

lemma rot_threw [simp]: "replies_or_throws (threw e)"
  by (simp add: replies_or_throws_def threw_def)

lemma rot_calling [simp]: "(\<And>v. replies_or_throws (k v)) \<Longrightarrow> replies_or_throws (calling c k)"
  by (simp add: calling_def split: sum.splits)












lemma report_reply_rot [simp]: "replies_or_throws (report_reply w site args)"
  by (simp add: report_reply_def)

lemma node_not_found_rot [simp]: "replies_or_throws (node_not_found n)"
  by (simp add: node_not_found_def split: option.splits)

lemma no_manager_rot [simp]: "replies_or_throws no_manager"
  by (simp add: no_manager_def)

lemma no_canvas_rot [simp]: "replies_or_throws no_canvas"
  by (simp add: no_canvas_def)







subsection \<open>The registries the constructor fills\<close>











lemma constructed_app:
  "new_McpDualServer rt cfg = Inr d \<Longrightarrow> app (handlers d) = config_app cfg"
  by (auto simp add: new_McpDualServer_def split: sum.splits)










subsection \<open>The dispatcher\<close>

lemma once_replied [simp]: "once (replied [m])"
  by (simp add: once_def replied_def)

lemma replied_some [simp]: "\<exists>msg. replied [m] = replied [msg]"
  by (rule exI [of _ m]) simp











lemma reply_events_single:
  "reply_events destroyed res i c [msg]
     = (sendSSEMessage destroyed res ''message'' (ResponseData (make_response i msg))
          (Some (string_of_nat (Suc c))), Suc c)"
  by (simp add: Let_def)

























section \<open>Properties of the orchestrator\<close>

lemma enhanced_error_is_port_error:
  "err_code e = Some ''EADDRINUSE'' \<Longrightarrow> is_port_error (enhance_listen_error p e)"
  by (simp add: enhance_listen_error_def is_port_error_def)

lemma start_ws_bound:
  assumes "enableWebSocket (dual_config d) \<noteq> Some False"
    and "ws_listen \<lparr>opt_port = 0, opt_host = None\<rparr> = Inr q"
  shows "fst (start_ws ws_listen d w) = \<lparr>wsPort = Some q, result_httpPort = None\<rparr>"
    and "\<exists>s. wsServer (fst (snd (start_ws ws_listen d w))) = Some s
           \<and> wss s = Some \<lparr>options = \<lparr>opt_port = 0, opt_host = None\<rparr>, address_port = q, closed = False\<rparr>
           \<and> connectedClients s = []
           \<and> onMessage (config s) = ws_onMessage (handlers d)"
  using assms
  by (auto simp add: start_ws_def Let_def case_prod_beta McpServer_start_def createLockFile_def
      new_McpServer_def split: sum.splits option.splits)

lemma dual_start_rethrows:
  assumes "enableHttp (dual_config d) \<noteq> Some False"
    and "http_listen (port_or_default (httpPort (dual_config d))) ''127.0.0.1'' = Inl e"
    and "is_port_error e"
  shows "fst (McpDualServer_start ws_listen http_listen d w) = Inl e"
    and "wsServer (fst (snd (McpDualServer_start ws_listen http_listen d w)))
           = wsServer (fst (snd (start_ws ws_listen d w)))"
  using assms
  by (simp_all add: McpDualServer_start_def Let_def case_prod_beta McpHttpServer_start_def)

lemma dual_start_swallows_other_errors:
  assumes "enableHttp (dual_config d) \<noteq> Some False"
    and "http_listen (port_or_default (httpPort (dual_config d))) ''127.0.0.1'' = Inl e"
    and "\<not> is_port_error e"
  shows "fst (McpDualServer_start ws_listen http_listen d w) = Inr (fst (start_ws ws_listen d w))"
  using assms
  by (simp add: McpDualServer_start_def Let_def case_prod_beta McpHttpServer_start_def)

text \<open>
  C2 (as amended). When the socket listener binds and the HTTP listener fails because
  its port is in use, \<open>start\<close> does not return an aggregate result: it rejects with the
  error of the HTTP listener, which it rethrows for the plugin to handle. The socket
  transport started before is not stopped: the orchestrator still holds it, listening on
  the port it was assigned, with its callbacks in place.
\<close>

theorem start_rethrows_port_in_use:
  assumes "enableWebSocket (dual_config d) \<noteq> Some False"
    and "ws_listen \<lparr>opt_port = 0, opt_host = None\<rparr> = Inr q"
    and "enableHttp (dual_config d) \<noteq> Some False"
    and "http_listen (port_or_default (httpPort (dual_config d))) ''127.0.0.1'' = Inl e"
    and "err_code e = Some ''EADDRINUSE''"
    and "err_name e = ''PortInUseError'' \<or> str_includes (err_message e) ''EADDRINUSE''"
  shows "fst (McpDualServer_start ws_listen http_listen d w) = Inl e
       \<and> (\<exists>s. wsServer (fst (snd (McpDualServer_start ws_listen http_listen d w))) = Some s
              \<and> wss s = Some \<lparr>options = \<lparr>opt_port = 0, opt_host = None\<rparr>, address_port = q, closed = False\<rparr>
              \<and> connectedClients s = []
              \<and> onMessage (config s) = ws_onMessage (handlers d))"
proof -
  have p: "is_port_error e" using assms(6) by (auto simp add: is_port_error_def)
  show ?thesis
    using dual_start_rethrows [where d = d and http_listen = http_listen and e = e
          and ws_listen = ws_listen and w = w]
      start_ws_bound(2) [where d = d and ws_listen = ws_listen and q = q and w = w]
      assms(1-4) p
    by simp
qed

lemma sample_rethrow:
  "fst (McpDualServer_start sample_ws_listen busy_http_listen sample_dual sample_world) = Inl address_in_use"
proof -
  have "is_port_error address_in_use" by (simp add: is_port_error_def address_in_use_def)
  then show ?thesis
    using dual_start_rethrows(1) [where d = sample_dual and http_listen = busy_http_listen
          and e = address_in_use and ws_listen = sample_ws_listen and w = sample_world]
    by (simp add: sample_dual_def busy_http_listen_def)
qed

theorem start_rethrows_port_in_use_witness:
  "enableWebSocket (dual_config sample_dual) \<noteq> Some False
   \<and> sample_ws_listen \<lparr>opt_port = 0, opt_host = None\<rparr> = Inr 51234
   \<and> enableHttp (dual_config sample_dual) \<noteq> Some False
   \<and> busy_http_listen 22360 ''127.0.0.1'' = Inl address_in_use
   \<and> err_code address_in_use = Some ''EADDRINUSE''
   \<and> str_includes (err_message address_in_use) ''EADDRINUSE''
   \<and> fst (McpDualServer_start sample_ws_listen busy_http_listen sample_dual sample_world) = Inl address_in_use
   \<and> map_option (map_option address_port \<circ> wss)
        (wsServer (fst (snd (McpDualServer_start sample_ws_listen busy_http_listen sample_dual sample_world))))
       = Some (Some 51234)"
proof -
  have a: "enableWebSocket (dual_config sample_dual) \<noteq> Some False" by (simp add: sample_dual_def)
  have b: "sample_ws_listen \<lparr>opt_port = 0, opt_host = None\<rparr> = Inr 51234" by (simp add: sample_ws_listen_def)
  have c: "enableHttp (dual_config sample_dual) \<noteq> Some False" by (simp add: sample_dual_def)
  have d: "busy_http_listen (port_or_default (httpPort (dual_config sample_dual))) ''127.0.0.1'' = Inl address_in_use"
    by (simp add: busy_http_listen_def)
  have d': "busy_http_listen 22360 ''127.0.0.1'' = Inl address_in_use"
    by (simp add: busy_http_listen_def)
  have e: "err_code address_in_use = Some ''EADDRINUSE''" by (simp add: address_in_use_def)
  have f: "str_includes (err_message address_in_use) ''EADDRINUSE''" by (simp add: address_in_use_def)
  have g: "err_name address_in_use = ''PortInUseError'' \<or> str_includes (err_message address_in_use) ''EADDRINUSE''"
    using f by simp
  show ?thesis
    using a b c d d' e f g
      start_rethrows_port_in_use [where d = sample_dual and ws_listen = sample_ws_listen
          and q = 51234 and http_listen = busy_http_listen and e = address_in_use
          and w = sample_world]
    by auto
qed

text \<open>The claim as stated fails: with the socket port 51234 bound and the HTTP port
  22360 in use, \<open>start\<close> rejects and does not return the partial result.\<close>

theorem start_does_not_return_partial_result:
  "sample_ws_listen \<lparr>opt_port = 0, opt_host = None\<rparr> = Inr 51234
   \<and> busy_http_listen 22360 ''127.0.0.1'' = Inl address_in_use
   \<and> err_code address_in_use = Some ''EADDRINUSE''
   \<and> fst (McpDualServer_start sample_ws_listen busy_http_listen sample_dual sample_world)
       = Inl address_in_use
   \<and> fst (McpDualServer_start sample_ws_listen busy_http_listen sample_dual sample_world)
       \<noteq> Inr \<lparr>wsPort = Some 51234, result_httpPort = None\<rparr>"
  by (simp add: sample_rethrow sample_ws_listen_def busy_http_listen_def address_in_use_def)


end
